theory Spec2Isabelle
  imports Complex_Main
begin

section \<open>JavaScript values as the handler sees them\<close>

text \<open>
  The handler of \<^verbatim>\<open>api/shopify-webhook.js\<close> works on the result of \<^verbatim>\<open>JSON.parse\<close>,
  a dynamically typed tree, and on \<^verbatim>\<open>undefined\<close>, which every read of a missing
  property yields. A JavaScript number is a double: finite, or one of the three special
  values. The program does no arithmetic on numbers; it only tests them (truthiness,
  \<^verbatim>\<open>Number.isFinite\<close>), prints them and reads them back from text, so a finite number
  is represented by the rational it denotes (both zeros by \<open>0\<close>).
  Strings are byte strings (the UTF-8 encoding of the JavaScript string). An object is the
  list of its own properties in insertion order; one that \<^verbatim>\<open>JSON.parse\<close> returns has
  every key once.
\<close>

datatype number = Finite rat | PosInfinity | NegInfinity | NaN

datatype jsval =
    JUndefined
  | JNull
  | JBool bool
  | JNum number
  | JStr string
  | JArr "jsval list"
  | JObj "(string \<times> jsval) list"

text \<open>Every \<^verbatim>\<open>throw\<close> of the runtime that the handler can meet.\<close>

datatype error = TypeError | RangeError | SyntaxError | FetchError

type_synonym 'a result = "error + 'a"

definition then_do :: "'a result \<Rightarrow> ('a \<Rightarrow> 'b result) \<Rightarrow> 'b result" where
  "then_do m f = (case m of Inl e \<Rightarrow> Inl e | Inr x \<Rightarrow> f x)"

text \<open>
  What the host supplies and the repository does not contain: the conversion of one
  received \<^verbatim>\<open>Buffer\<close> chunk to a string (UTF-8 decoding, which replaces an incomplete
  or invalid sequence), the HMAC of Node's \<^verbatim>\<open>crypto\<close> module (already base64
  encoded), \<^verbatim>\<open>JSON.parse\<close>, the outbound \<^verbatim>\<open>fetch\<close> together with
  \<^verbatim>\<open>gaRes.text()\<close>, the rounding of a decimal literal that is not a small integer to
  the nearest double, and the printing of a double that is not a small integer: for an
  integer double above \<open>2^53\<close> the integer with the fewest significant digits that still
  rounds to it, whose digits JavaScript prints, and for every other double its text.
\<close>

record runtime =
  chunk_to_string :: "string \<Rightarrow> string"
  hmac_sha256_base64 :: "string \<Rightarrow> string \<Rightarrow> string"
  JSON_parse :: "string \<Rightarrow> jsval result"
  fetch_text :: "string \<Rightarrow> jsval \<Rightarrow> string result"
  to_double :: "rat \<Rightarrow> number"
  shortest_integer :: "nat \<Rightarrow> nat"
  double_to_string :: "rat \<Rightarrow> string"

subsection \<open>Truthiness, \<^verbatim>\<open>||\<close>, property reads\<close>

fun truthy :: "jsval \<Rightarrow> bool" where
  "truthy JUndefined = False"
| "truthy JNull = False"
| "truthy (JBool b) = b"
| "truthy (JNum (Finite r)) = (r \<noteq> 0)"
| "truthy (JNum NaN) = False"
| "truthy (JNum _) = True"
| "truthy (JStr s) = (s \<noteq> [])"
| "truthy (JArr _) = True"
| "truthy (JObj _) = True"

text \<open>\<^verbatim>\<open>a || b\<close> for operands whose evaluation cannot throw.\<close>

definition js_or :: "jsval \<Rightarrow> jsval \<Rightarrow> jsval" where
  "js_or a b = (if truthy a then a else b)"

fun nullish :: "jsval \<Rightarrow> bool" where
  "nullish JUndefined = True"
| "nullish JNull = True"
| "nullish _ = False"

text \<open>
  \<^verbatim>\<open>v.k\<close> for the data properties the handler reads (\<^verbatim>\<open>id\<close>, \<^verbatim>\<open>name\<close>,
  \<^verbatim>\<open>value\<close>, \<^verbatim>\<open>price\<close>, \<^verbatim>\<open>vendor\<close>, ...): reading from \<^verbatim>\<open>undefined\<close> or
  \<^verbatim>\<open>null\<close> throws a TypeError; an object parsed from JSON has exactly its own
  properties; arrays, strings, numbers and booleans carry none of these names (the
  methods \<^verbatim>\<open>find\<close>, \<^verbatim>\<open>map\<close> and \<^verbatim>\<open>toLowerCase\<close> are modelled where they are
  called).
\<close>

fun get_prop :: "jsval \<Rightarrow> string \<Rightarrow> jsval result" where
  "get_prop JUndefined k = Inl TypeError"
| "get_prop JNull k = Inl TypeError"
| "get_prop (JObj kvs) k = Inr (case map_of kvs k of Some v \<Rightarrow> v | None \<Rightarrow> JUndefined)"
| "get_prop _ k = Inr JUndefined"

text \<open>\<^verbatim>\<open>v?.k\<close>: \<^verbatim>\<open>undefined\<close> when \<open>v\<close> is nullish, so it never throws.\<close>

fun opt_prop :: "jsval \<Rightarrow> string \<Rightarrow> jsval" where
  "opt_prop (JObj kvs) k = (case map_of kvs k of Some v \<Rightarrow> v | None \<Rightarrow> JUndefined)"
| "opt_prop _ k = JUndefined"

text \<open>\<^verbatim>\<open>v?.[0]\<close>: the first element of an array, the first character of a string.\<close>

fun opt_first :: "jsval \<Rightarrow> jsval" where
  "opt_first (JArr (x # xs)) = x"
| "opt_first (JStr (c # cs)) = JStr [c]"
| "opt_first (JObj kvs) = (case map_of kvs ''0'' of Some v \<Rightarrow> v | None \<Rightarrow> JUndefined)"
| "opt_first _ = JUndefined"

subsection \<open>\<^verbatim>\<open>String(v)\<close>\<close>

fun digits_of_nat :: "nat \<Rightarrow> string" where
  "digits_of_nat n =
     (if n < 10 then [''0123456789'' ! n]
      else digits_of_nat (n div 10) @ [''0123456789'' ! (n mod 10)])"

declare digits_of_nat.simps [simp del]

definition is_int_rat :: "rat \<Rightarrow> bool" where
  "is_int_rat r = (of_int \<lfloor>r\<rfloor> = r)"

text \<open>
  Number to string. An integer below \<open>10^21\<close> in magnitude prints as decimal digits
  without exponent: its own digits up to \<open>2^53\<close>, where every integer is a double, and
  above that the digits of the shortest integer that rounds to it (\<open>2^60\<close> prints as
  \<^verbatim>\<open>1152921504606847000\<close>). Every other finite double is printed by the runtime.
\<close>

fun number_to_string :: "runtime \<Rightarrow> number \<Rightarrow> string" where
  "number_to_string rt NaN = ''NaN''"
| "number_to_string rt PosInfinity = ''Infinity''"
| "number_to_string rt NegInfinity = ''-Infinity''"
| "number_to_string rt (Finite r) =
     (if is_int_rat r \<and> \<bar>r\<bar> < 10 ^ 21
      then (if r < 0 then ''-'' else '''')
           @ digits_of_nat (if \<bar>r\<bar> \<le> 2 ^ 53 then nat \<bar>\<lfloor>r\<rfloor>\<bar>
                            else shortest_integer rt (nat \<bar>\<lfloor>r\<rfloor>\<bar>))
      else double_to_string rt r)"

text \<open>
  \<^verbatim>\<open>String(v)\<close>. An array prints its elements joined by commas, \<^verbatim>\<open>null\<close> and
  \<^verbatim>\<open>undefined\<close> elements as the empty string. A plain object prints as
  \<^verbatim>\<open>[object Object]\<close>, unless it has an own property \<^verbatim>\<open>toString\<close>: a value parsed
  from JSON is never callable, so the conversion to a primitive finds no method and
  throws a TypeError.
\<close>

fun to_string :: "runtime \<Rightarrow> jsval \<Rightarrow> string result"
  and join_elems :: "runtime \<Rightarrow> jsval list \<Rightarrow> string result" where
  "to_string rt JUndefined = Inr ''undefined''"
| "to_string rt JNull = Inr ''null''"
| "to_string rt (JBool b) = Inr (if b then ''true'' else ''false'')"
| "to_string rt (JNum n) = Inr (number_to_string rt n)"
| "to_string rt (JStr s) = Inr s"
| "to_string rt (JArr xs) = join_elems rt xs"
| "to_string rt (JObj kvs) =
     (if ''toString'' \<in> fst ` set kvs then Inl TypeError else Inr ''[object Object]'')"
| "join_elems rt [] = Inr []"
| "join_elems rt (x # xs) =
     then_do (if nullish x then Inr [] else to_string rt x) (\<lambda>s.
     if xs = [] then Inr s
     else then_do (join_elems rt xs) (\<lambda>r. Inr (s @ '','' @ r)))"

subsection \<open>\<^verbatim>\<open>parseFloat\<close>, \<^verbatim>\<open>toLowerCase\<close>, \<^verbatim>\<open>crypto.timingSafeEqual\<close>, \<^verbatim>\<open>JSON.stringify\<close>\<close>

text \<open>
  The white space that \<^verbatim>\<open>parseFloat\<close> skips, in the UTF-8 encoding of the string:
  the one-byte characters tab, line feed, vertical tab, form feed, carriage return and
  space; the no-break space U+00A0; and the three-byte characters U+1680, U+2000 to
  U+200A, the line and paragraph separators U+2028 and U+2029, U+202F, U+205F, U+3000
  and the byte order mark U+FEFF.
\<close>

definition ws1 :: "char \<Rightarrow> bool" where
  "ws1 a = ((of_char a :: nat) \<in> {9, 10, 11, 12, 13, 32})"

definition ws2 :: "char \<Rightarrow> char \<Rightarrow> bool" where
  "ws2 a b = ((of_char a :: nat) = 194 \<and> (of_char b :: nat) = 160)"

definition ws3 :: "char \<Rightarrow> char \<Rightarrow> char \<Rightarrow> bool" where
  "ws3 a b c =
     (((of_char a :: nat) = 225 \<and> (of_char b :: nat) = 154 \<and> (of_char c :: nat) = 128)
      \<or> ((of_char a :: nat) = 226 \<and> (of_char b :: nat) = 128
          \<and> ((of_char c :: nat) \<in> {128, 129, 130, 131, 132, 133, 134, 135, 136, 137, 138,
                                    168, 169, 175}))
      \<or> ((of_char a :: nat) = 226 \<and> (of_char b :: nat) = 129 \<and> (of_char c :: nat) = 159)
      \<or> ((of_char a :: nat) = 227 \<and> (of_char b :: nat) = 128 \<and> (of_char c :: nat) = 128)
      \<or> ((of_char a :: nat) = 239 \<and> (of_char b :: nat) = 187 \<and> (of_char c :: nat) = 191))"

fun skip_space :: "string \<Rightarrow> string" where
  "skip_space (a # b # c # s) =
     (if ws1 a then skip_space (b # c # s)
      else if ws2 a b then skip_space (c # s)
      else if ws3 a b c then skip_space s
      else a # b # c # s)"
| "skip_space [a, b] = (if ws1 a then skip_space [b] else if ws2 a b then [] else [a, b])"
| "skip_space [a] = (if ws1 a then [] else [a])"
| "skip_space [] = []"

definition is_digit :: "char \<Rightarrow> bool" where
  "is_digit c = (48 \<le> (of_char c :: nat) \<and> (of_char c :: nat) \<le> 57)"

definition digits_val :: "string \<Rightarrow> nat" where
  "digits_val ds = foldl (\<lambda>a c. 10 * a + (of_char c - 48)) 0 ds"

definition pow10 :: "int \<Rightarrow> rat" where
  "pow10 e = (if 0 \<le> e then 10 ^ nat e else 1 / 10 ^ nat (- e))"

text \<open>The exponent part \<^verbatim>\<open>e\<close>, sign, digits; \<open>0\<close> when the text has no complete one.\<close>

definition scan_exponent :: "string \<Rightarrow> int" where
  "scan_exponent s =
     (case s of
        [] \<Rightarrow> 0
      | c # r \<Rightarrow>
          if c = CHR ''e'' \<or> c = CHR ''E'' then
            (case r of
               [] \<Rightarrow> 0
             | g # r' \<Rightarrow>
                 if g = CHR ''-'' then - int (digits_val (takeWhile is_digit r'))
                 else if g = CHR ''+'' then int (digits_val (takeWhile is_digit r'))
                 else int (digits_val (takeWhile is_digit r)))
          else 0)"

text \<open>
  The longest unsigned decimal literal at the head of the text (digits, an optional
  fraction, an optional exponent), as the rational it denotes; \<open>None\<close> when the text
  starts with none.
\<close>

definition scan_unsigned :: "string \<Rightarrow> rat option" where
  "scan_unsigned s =
     (let ip = takeWhile is_digit s;
          r1 = dropWhile is_digit s;
          fp = (case r1 of [] \<Rightarrow> [] | c # t \<Rightarrow> if c = CHR ''.'' then takeWhile is_digit t else []);
          r2 = (case r1 of [] \<Rightarrow> [] | c # t \<Rightarrow> if c = CHR ''.'' then dropWhile is_digit t else r1)
      in if ip = [] \<and> fp = [] then None
         else Some (of_nat (digits_val (ip @ fp)) * pow10 (scan_exponent r2 - int (length fp))))"

text \<open>
  The double nearest to a rational: an integer up to \<open>2^53\<close> in magnitude is a double
  itself; every other value is rounded by the runtime (to a finite double or an infinity).
\<close>

definition round_double :: "runtime \<Rightarrow> rat \<Rightarrow> number" where
  "round_double rt r = (if is_int_rat r \<and> \<bar>r\<bar> \<le> 2 ^ 53 then Finite r else to_double rt r)"

text \<open>
  \<^verbatim>\<open>parseFloat\<close> on a string: skip leading white space, read an optional sign, then
  \<^verbatim>\<open>Infinity\<close> or the longest decimal literal; \<^verbatim>\<open>NaN\<close> when there is neither.
\<close>

definition parseFloat_string :: "runtime \<Rightarrow> string \<Rightarrow> number" where
  "parseFloat_string rt s =
     (let t = skip_space s;
          neg = (t \<noteq> [] \<and> hd t = CHR ''-'');
          u = (if t \<noteq> [] \<and> (hd t = CHR ''-'' \<or> hd t = CHR ''+'') then tl t else t)
      in if take 8 u = ''Infinity'' then (if neg then NegInfinity else PosInfinity)
         else (case scan_unsigned u of
                 None \<Rightarrow> NaN
               | Some r \<Rightarrow> round_double rt (if neg then - r else r)))"

text \<open>\<^verbatim>\<open>parseFloat(v)\<close> converts its argument to a string first.\<close>

definition parseFloat :: "runtime \<Rightarrow> jsval \<Rightarrow> number result" where
  "parseFloat rt v = then_do (to_string rt v) (\<lambda>s. Inr (parseFloat_string rt s))"

fun isFinite :: "number \<Rightarrow> bool" where
  "isFinite (Finite r) = True"
| "isFinite _ = False"

text \<open>
  Lower-casing acts on the letters \<^verbatim>\<open>A\<close> to \<^verbatim>\<open>Z\<close>. (Of the characters beyond
  ASCII only the Kelvin sign and the dotted capital I lower-case to text containing an
  ASCII letter, a \<^verbatim>\<open>k\<close>, which none of the handler's keys contains, or an \<^verbatim>\<open>i\<close>
  followed by a combining dot, which matches no key either.)
\<close>

definition lower_char :: "char \<Rightarrow> char" where
  "lower_char c =
     (case map_of (zip ''ABCDEFGHIJKLMNOPQRSTUVWXYZ'' ''abcdefghijklmnopqrstuvwxyz'') c of
        Some d \<Rightarrow> d
      | None \<Rightarrow> c)"

definition toLowerCase :: "string \<Rightarrow> string" where
  "toLowerCase s = map lower_char s"

text \<open>
  \<^verbatim>\<open>crypto.timingSafeEqual(Buffer.from(a), Buffer.from(b))\<close>: Node throws a RangeError
  when the two buffers differ in byte length, and compares them otherwise.
\<close>

definition timingSafeEqual :: "string \<Rightarrow> string \<Rightarrow> bool result" where
  "timingSafeEqual a b = (if length a \<noteq> length b then Inl RangeError else Inr (a = b))"

text \<open>
  \<^verbatim>\<open>JSON.stringify\<close>, with the text it produces represented by the JSON document that
  the text denotes: a property whose value is \<^verbatim>\<open>undefined\<close> is left out, an
  \<^verbatim>\<open>undefined\<close> array element and a number that is not finite become \<^verbatim>\<open>null\<close>.
\<close>

fun JSON_stringify :: "jsval \<Rightarrow> jsval"
  and stringify_elems :: "jsval list \<Rightarrow> jsval list"
  and stringify_members :: "(string \<times> jsval) list \<Rightarrow> (string \<times> jsval) list" where
  "JSON_stringify JUndefined = JNull"
| "JSON_stringify JNull = JNull"
| "JSON_stringify (JBool b) = JBool b"
| "JSON_stringify (JNum n) = (if isFinite n then JNum n else JNull)"
| "JSON_stringify (JStr s) = JStr s"
| "JSON_stringify (JArr xs) = JArr (stringify_elems xs)"
| "JSON_stringify (JObj kvs) = JObj (stringify_members kvs)"
| "stringify_elems [] = []"
| "stringify_elems (x # xs) = JSON_stringify x # stringify_elems xs"
| "stringify_members [] = []"
| "stringify_members (kv # kvs) =
     (if snd kv = JUndefined then stringify_members kvs
      else (fst kv, JSON_stringify (snd kv)) # stringify_members kvs)"

section \<open>The webhook handler\<close>

subsection \<open>Configuration and the two helpers\<close>

record process_env =
  env_GA4_MEASUREMENT_ID :: "string option"
  env_GA4_API_SECRET :: "string option"
  env_SHOPIFY_WEBHOOK_SECRET :: "string option"
  env_GA4_DEBUG_MODE :: "string option"

record request =
  req_method :: string
  req_headers :: "string \<Rightarrow> string option"
  req_chunks :: "string list"

record response =
  status :: nat
  body :: jsval

text \<open>\<^verbatim>\<open>process.env.SHOPIFY_WEBHOOK_SECRET || ""\<close>\<close>

definition SHOPIFY_WEBHOOK_SECRET :: "process_env \<Rightarrow> string" where
  "SHOPIFY_WEBHOOK_SECRET env =
     (case env_SHOPIFY_WEBHOOK_SECRET env of None \<Rightarrow> [] | Some s \<Rightarrow> s)"

text \<open>An environment variable inside a template literal: an unset one prints as \<^verbatim>\<open>undefined\<close>.\<close>

definition template :: "string option \<Rightarrow> string" where
  "template v = (case v of None \<Rightarrow> ''undefined'' | Some s \<Rightarrow> s)"

definition GA4_ENDPOINT :: "process_env \<Rightarrow> string" where
  "GA4_ENDPOINT env =
     ''https://www.google-analytics.com/mp/collect?measurement_id=''
       @ template (env_GA4_MEASUREMENT_ID env) @ ''&api_secret='' @ template (env_GA4_API_SECRET env)"

definition GA4_DEBUG :: "process_env \<Rightarrow> string" where
  "GA4_DEBUG env =
     ''https://www.google-analytics.com/debug/mp/collect?measurement_id=''
       @ template (env_GA4_MEASUREMENT_ID env) @ ''&api_secret='' @ template (env_GA4_API_SECRET env)"

definition verifyShopifyHmac :: "runtime \<Rightarrow> process_env \<Rightarrow> request \<Rightarrow> string \<Rightarrow> bool result" where
  "verifyShopifyHmac rt env req rawBody =
     (if SHOPIFY_WEBHOOK_SECRET env = [] then Inr True
      else (case req_headers req ''x-shopify-hmac-sha256'' of
              None \<Rightarrow> Inr False
            | Some hmacHeader \<Rightarrow>
                if hmacHeader = [] then Inr False
                else timingSafeEqual hmacHeader
                       (hmac_sha256_base64 rt (SHOPIFY_WEBHOOK_SECRET env) rawBody)))"

definition toNumber :: "runtime \<Rightarrow> jsval \<Rightarrow> number \<Rightarrow> number result" where
  "toNumber rt v fallback =
     then_do (parseFloat rt v) (\<lambda>n. Inr (if isFinite n then n else fallback))"

subsection \<open>Mapping a Shopify order to a GA4 purchase event\<close>

text \<open>\<^verbatim>\<open>const attributes = order?.note_attributes || [];\<close>\<close>

definition attributes :: "jsval \<Rightarrow> jsval" where
  "attributes order = js_or (opt_prop order ''note_attributes'') (JArr [])"

text \<open>
  The callback of \<^verbatim>\<open>find\<close>: \<^verbatim>\<open>a.name?.toLowerCase() === key.toLowerCase()\<close>.
  Reading \<^verbatim>\<open>name\<close> from a \<^verbatim>\<open>null\<close> element throws; a name that is neither nullish
  nor a string has no method \<^verbatim>\<open>toLowerCase\<close>, and calling it throws.
\<close>

definition name_matches :: "string \<Rightarrow> jsval \<Rightarrow> bool result" where
  "name_matches key a =
     then_do (get_prop a ''name'') (\<lambda>n.
       if nullish n then Inr False
       else (case n of
               JStr s \<Rightarrow> Inr (toLowerCase s = toLowerCase key)
             | _ \<Rightarrow> Inl TypeError))"

text \<open>\<^verbatim>\<open>Array.prototype.find\<close>: the first element the callback accepts, else \<^verbatim>\<open>undefined\<close>.\<close>

fun array_find :: "(jsval \<Rightarrow> bool result) \<Rightarrow> jsval list \<Rightarrow> jsval result" where
  "array_find p [] = Inr JUndefined"
| "array_find p (a # as) =
     then_do (p a) (\<lambda>hit. if hit then Inr a else array_find p as)"

text \<open>
  \<^verbatim>\<open>getAttr\<close>. A truthy \<^verbatim>\<open>note_attributes\<close> that is not an array has no callable
  \<^verbatim>\<open>find\<close>, so the call throws.
\<close>

definition getAttr :: "jsval \<Rightarrow> string \<Rightarrow> jsval result" where
  "getAttr attrs key =
     (case attrs of
        JArr as \<Rightarrow> then_do (array_find (name_matches key) as) (\<lambda>a. Inr (opt_prop a ''value''))
      | _ \<Rightarrow> Inl TypeError)"

text \<open>
  \<^verbatim>\<open>clientId\<close>: the two attribute lookups, then
  \<^verbatim>\<open>order.customer?.id ? String(order.customer.id) : String(order.id)\<close>.
\<close>

definition clientId :: "runtime \<Rightarrow> jsval \<Rightarrow> jsval result" where
  "clientId rt order =
     then_do (getAttr (attributes order) ''client_id'') (\<lambda>c1.
     if truthy c1 then Inr c1
     else then_do (getAttr (attributes order) ''_ga_cid'') (\<lambda>c2.
     if truthy c2 then Inr c2
     else then_do (get_prop order ''customer'') (\<lambda>customer.
     if truthy (opt_prop customer ''id'')
     then then_do (to_string rt (opt_prop customer ''id'')) (\<lambda>s. Inr (JStr s))
     else then_do (to_string rt (opt_prop order ''id'')) (\<lambda>s. Inr (JStr s)))))"

text \<open>\<^verbatim>\<open>const userId = order?.customer?.email || null;\<close>\<close>

definition userId :: "jsval \<Rightarrow> jsval" where
  "userId order = js_or (opt_prop (opt_prop order ''customer'') ''email'') JNull"

text \<open>
  The eight constants \<^verbatim>\<open>gclid\<close>, ..., \<^verbatim>\<open>utm_term\<close>, each
  \<^verbatim>\<open>getAttr(key) || null\<close>, computed in this order.
\<close>

definition attribution_keys :: "string list" where
  "attribution_keys =
     [''gclid'', ''gbraid'', ''wbraid'', ''utm_source'', ''utm_medium'', ''utm_campaign'',
      ''utm_content'', ''utm_term'']"

fun map_result :: "('a \<Rightarrow> 'b result) \<Rightarrow> 'a list \<Rightarrow> 'b list result" where
  "map_result f [] = Inr []"
| "map_result f (x # xs) =
     then_do (f x) (\<lambda>y. then_do (map_result f xs) (\<lambda>ys. Inr (y # ys)))"

definition attribution :: "jsval \<Rightarrow> (string \<times> jsval) list result" where
  "attribution order =
     map_result (\<lambda>key. then_do (getAttr (attributes order) key) (\<lambda>v. Inr (key, js_or v JNull)))
       attribution_keys"

text \<open>\<^verbatim>\<open>...(v ? { key: v } : {})\<close>\<close>

definition spread_if :: "string \<times> jsval \<Rightarrow> (string \<times> jsval) list" where
  "spread_if kv = (if truthy (snd kv) then [kv] else [])"

text \<open>
  The callback of \<^verbatim>\<open>line_items.map\<close>. Reading any property of a \<^verbatim>\<open>null\<close> item
  throws. \<^verbatim>\<open>item_brand\<close> is read from \<^verbatim>\<open>order?.line_items?.vendor\<close>, that is from
  the collection and not from the item.
\<close>

definition line_item :: "runtime \<Rightarrow> jsval \<Rightarrow> jsval \<Rightarrow> jsval result" where
  "line_item rt order item =
     (if nullish item then Inl TypeError
      else
        then_do (to_string rt
                  (js_or (js_or (js_or (opt_prop item ''product_id'') (opt_prop item ''sku''))
                                (opt_prop item ''variant_id''))
                         (opt_prop item ''id''))) (\<lambda>item_id.
        then_do (toNumber rt
                  (js_or (js_or (opt_prop item ''price'')
                                (opt_prop (opt_prop (opt_prop item ''price_set'') ''shop_money'')
                                   ''amount''))
                         (JNum (Finite 0)))
                  (Finite 0)) (\<lambda>price.
        Inr (JObj
          [(''item_id'', JStr item_id),
           (''item_name'', js_or (opt_prop item ''title'') (opt_prop item ''name'')),
           (''quantity'', js_or (opt_prop item ''quantity'') (JNum (Finite 1))),
           (''price'', JNum price),
           (''item_brand'', js_or (opt_prop (opt_prop order ''line_items'') ''vendor'') JUndefined),
           (''item_variant'', js_or (opt_prop item ''variant_title'') JUndefined)]))))"

text \<open>
  \<^verbatim>\<open>(order.line_items || []).map(...)\<close>: a truthy \<^verbatim>\<open>line_items\<close> that is not an
  array has no callable \<^verbatim>\<open>map\<close>.
\<close>

definition items :: "runtime \<Rightarrow> jsval \<Rightarrow> jsval list result" where
  "items rt order =
     then_do (get_prop order ''line_items'') (\<lambda>li.
       case js_or li (JArr []) of
         JArr xs \<Rightarrow> map_result (line_item rt order) xs
       | _ \<Rightarrow> Inl TypeError)"

text \<open>The \<^verbatim>\<open>params\<close> object of the purchase event, in the order the literal is evaluated.\<close>

definition params :: "runtime \<Rightarrow> jsval \<Rightarrow> (string \<times> jsval) list \<Rightarrow> jsval list
    \<Rightarrow> (string \<times> jsval) list result" where
  "params rt order attrib its =
     then_do (then_do (get_prop order ''id'') (to_string rt)) (\<lambda>transaction_id.
     then_do (toNumber rt
               (js_or (js_or (opt_prop order ''total_price'') (opt_prop order ''current_total_price''))
                      (opt_prop (opt_prop (opt_prop order ''total_price_set'') ''shop_money'')
                         ''amount''))
               (Finite 0)) (\<lambda>val.
     then_do (toNumber rt (js_or (opt_prop order ''total_tax'') (JNum (Finite 0))) (Finite 0)) (\<lambda>tax.
     then_do (toNumber rt
               (js_or (opt_prop (opt_prop (opt_prop order ''total_shipping_price_set'')
                                   ''shop_money'') ''amount'')
                      (JNum (Finite 0)))
               (Finite 0)) (\<lambda>shipping.
     Inr ([(''transaction_id'', JStr transaction_id),
           (''value'', JNum val),
           (''currency'',
              js_or (js_or (opt_prop order ''currency'') (opt_prop order ''presentment_currency''))
                    (JStr ''INR'')),
           (''tax'', JNum tax),
           (''shipping'', JNum shipping),
           (''coupon'',
              js_or (opt_prop (opt_first (opt_prop order ''discount_codes'')) ''code'') JUndefined),
           (''items'', JArr its)]
          @ concat (map spread_if attrib))))))"

text \<open>Lines 58 to 114: everything between \<^verbatim>\<open>JSON.parse\<close> and \<^verbatim>\<open>fetch\<close>.\<close>

definition ga4Event :: "runtime \<Rightarrow> jsval \<Rightarrow> jsval result" where
  "ga4Event rt order =
     then_do (clientId rt order) (\<lambda>cid.
     then_do (attribution order) (\<lambda>attrib.
     then_do (items rt order) (\<lambda>its.
     then_do (to_string rt cid) (\<lambda>client_id.
     then_do (params rt order attrib its) (\<lambda>ps.
     Inr (JObj
       ([(''client_id'', JStr client_id)]
        @ (if truthy (userId order) then [(''user_id'', userId order)] else [])
        @ [(''non_personalized_ads'', JBool False),
           (''events'', JArr [JObj [(''name'', JStr ''purchase''), (''params'', JObj ps)]])])))))))"

subsection \<open>The handler\<close>

fun str_includes :: "string \<Rightarrow> string \<Rightarrow> bool" where
  "str_includes [] p = (p = [])"
| "str_includes (c # cs) p = (take (length p) (c # cs) = p \<or> str_includes cs p)"

definition error_body :: "string \<Rightarrow> jsval" where
  "error_body msg = JObj [(''error'', JStr msg)]"

text \<open>\<^verbatim>\<open>process.env.GA4_DEBUG_MODE === "1" ? GA4_DEBUG : GA4_ENDPOINT\<close>\<close>

definition endpoint :: "process_env \<Rightarrow> string" where
  "endpoint env = (if env_GA4_DEBUG_MODE env = Some ''1'' then GA4_DEBUG env else GA4_ENDPOINT env)"

text \<open>
  The \<^verbatim>\<open>try\<close> block, for a request whose stream delivers its chunks and ends and
  a collector call that settles. The result is what the block returns or throws, together
  with the outbound calls made on the way (endpoint and JSON body; every call is a POST
  with content type \<^verbatim>\<open>application/json\<close>).
\<close>

text \<open>
  The body promise of lines 44 to 48: \<^verbatim>\<open>data += chunk\<close> converts each chunk to a
  string on its own and appends it.
\<close>

definition raw_body :: "runtime \<Rightarrow> request \<Rightarrow> string" where
  "raw_body rt req = concat (map (chunk_to_string rt) (req_chunks req))"

definition handler_try :: "runtime \<Rightarrow> process_env \<Rightarrow> request
    \<Rightarrow> response result \<times> (string \<times> jsval) list" where
  "handler_try rt env req =
     (if req_method req \<noteq> ''POST''
      then (Inr \<lparr>status = 405, body = error_body ''Method not allowed''\<rparr>, [])
      else
        (case verifyShopifyHmac rt env req (raw_body rt req) of
           Inl e \<Rightarrow> (Inl e, [])
         | Inr False \<Rightarrow> (Inr \<lparr>status = 401, body = error_body ''Invalid HMAC signature''\<rparr>, [])
         | Inr True \<Rightarrow>
             (case then_do (JSON_parse rt (raw_body rt req)) (ga4Event rt) of
                Inl e \<Rightarrow> (Inl e, [])
              | Inr ev \<Rightarrow>
                  (case fetch_text rt (endpoint env) (JSON_stringify ev) of
                     Inl e \<Rightarrow> (Inl e, [(endpoint env, JSON_stringify ev)])
                   | Inr text \<Rightarrow>
                       (Inr \<lparr>status = 200,
                             body = JObj [(''status'', JStr ''ok''),
                                          (''sent_to'',
                                             JStr (if str_includes (endpoint env) ''/debug/''
                                                   then ''GA4 DEBUG'' else ''GA4'')),
                                          (''ga_response'', JStr text)]\<rparr>,
                        [(endpoint env, JSON_stringify ev)])))))"

text \<open>
  The handler: the \<^verbatim>\<open>catch\<close> clause turns whatever the block threw into the 500
  response (the exception itself only goes to \<^verbatim>\<open>console.error\<close>).
\<close>

definition handler :: "runtime \<Rightarrow> process_env \<Rightarrow> request \<Rightarrow> response \<times> (string \<times> jsval) list" where
  "handler rt env req =
     (case handler_try rt env req of
        (Inl e, calls) \<Rightarrow> (\<lparr>status = 500, body = error_body ''Internal error''\<rparr>, calls)
      | (Inr res, calls) \<Rightarrow> (res, calls))"

text \<open>
  The two operations that the handler awaits need not settle: the body promise resolves
  only on the stream's \<^verbatim>\<open>end\<close> event and has no path to rejection, so it stays
  pending when the connection is cut before the body is complete; and the call to the
  collector has no timeout. An invocation yields a response, or none when an awaited
  operation never settles. A request that is not a POST is answered before the body is
  read; the call to the collector is on record once it is made.
\<close>

record awaits =
  body_ends :: bool
  collector_settles :: bool

definition invocation :: "runtime \<Rightarrow> process_env \<Rightarrow> request \<Rightarrow> awaits
    \<Rightarrow> response option \<times> (string \<times> jsval) list" where
  "invocation rt env req aw =
     (if req_method req \<noteq> ''POST'' then (Some (fst (handler rt env req)), [])
      else if \<not> body_ends aw then (None, [])
      else if snd (handler rt env req) \<noteq> [] \<and> \<not> collector_settles aw
      then (None, snd (handler rt env req))
      else (Some (fst (handler rt env req)), snd (handler rt env req)))"

subsection \<open>Reading an event back\<close>

text \<open>
  Accessors for the event, before or after serialization: the \<^verbatim>\<open>params\<close> object of
  its single \<^verbatim>\<open>purchase\<close> entry, one parameter, and the normalized line items.
\<close>

definition event_params :: "jsval \<Rightarrow> (string \<times> jsval) list option" where
  "event_params ev =
     (case opt_prop ev ''events'' of
        JArr [JObj entry] \<Rightarrow> (case map_of entry ''params'' of Some (JObj ps) \<Rightarrow> Some ps | _ \<Rightarrow> None)
      | _ \<Rightarrow> None)"

definition param :: "jsval \<Rightarrow> string \<Rightarrow> jsval option" where
  "param ev k = (case event_params ev of None \<Rightarrow> None | Some ps \<Rightarrow> map_of ps k)"

definition event_items :: "jsval \<Rightarrow> jsval list option" where
  "event_items ev = (case param ev ''items'' of Some (JArr its) \<Rightarrow> Some its | _ \<Rightarrow> None)"

definition has_key :: "jsval \<Rightarrow> string \<Rightarrow> bool" where
  "has_key v k = (case v of JObj kvs \<Rightarrow> k \<in> fst ` set kvs | _ \<Rightarrow> False)"

text \<open>
  The order carries a tracking attribute of the given (lower-case) name: an element of
  \<^verbatim>\<open>note_attributes\<close> whose \<^verbatim>\<open>name\<close> is a string equal to it up to case.
\<close>

definition attr_named :: "string \<Rightarrow> jsval \<Rightarrow> bool" where
  "attr_named key a = (case opt_prop a ''name'' of JStr s \<Rightarrow> toLowerCase s = key | _ \<Rightarrow> False)"

definition has_attribute :: "jsval \<Rightarrow> string \<Rightarrow> bool" where
  "has_attribute order key =
     (case attributes order of JArr as \<Rightarrow> list_ex (attr_named key) as | _ \<Rightarrow> False)"

text \<open>An integer below \<open>10^21\<close> in magnitude, as every Shopify id is, or a non-empty string.\<close>

definition well_formed_id :: "jsval \<Rightarrow> bool" where
  "well_formed_id v =
     (case v of
        JStr s \<Rightarrow> s \<noteq> []
      | JNum (Finite r) \<Rightarrow> is_int_rat r \<and> \<bar>r\<bar> < 10 ^ 21
      | _ \<Rightarrow> False)"

text \<open>
  A string that does not start, after white space and an optional sign, with a decimal
  literal: \<^verbatim>\<open>not-a-number\<close>, \<^verbatim>\<open>$5\<close>, \<^verbatim>\<open>Infinity\<close>, but not \<^verbatim>\<open>12abc\<close>.
\<close>

definition no_leading_number :: "string \<Rightarrow> bool" where
  "no_leading_number s =
     (let t = skip_space s;
          u = (if t \<noteq> [] \<and> (hd t = CHR ''-'' \<or> hd t = CHR ''+'') then tl t else t)
      in scan_unsigned u = None)"

text \<open>
  The first byte of an encoded white space character; a string that starts with any other
  byte has no white space to skip.
\<close>

definition space_lead :: "char \<Rightarrow> bool" where
  "space_lead a = ((of_char a :: nat) \<in> {9, 10, 11, 12, 13, 32, 194, 225, 226, 227, 239})"

text \<open>
  The number that a value converts to, as the totals and prices are to be computed:
  what \<^verbatim>\<open>parseFloat\<close> reads from the value, and 0 in place of \<^verbatim>\<open>NaN\<close> and the
  infinities.
\<close>

definition number_or_zero :: "number \<Rightarrow> rat" where
  "number_or_zero n = (case n of Finite r \<Rightarrow> r | _ \<Rightarrow> 0)"

definition converted :: "runtime \<Rightarrow> jsval \<Rightarrow> rat \<Rightarrow> bool" where
  "converted rt v r = (case parseFloat rt v of Inl e \<Rightarrow> False | Inr n \<Rightarrow> r = number_or_zero n)"


section \<open>Concrete inputs\<close>

text \<open>
  The order of the specification's end-to-end scenario, and a runtime, an environment and
  a request to run the handler on it. The runtime stands in for the host: chunks of ASCII
  text, a fixed digest of the right shape, a parser that returns the given result, a
  collector that answers with the given result, and no rounding.
\<close>

definition sample_order :: jsval where
  "sample_order =
     JObj [(''id'', JNum (Finite 1001)),
           (''customer'', JObj [(''id'', JNum (Finite 77)), (''email'', JStr ''a@b.com'')]),
           (''total_price'', JStr ''199.50''),
           (''currency'', JStr ''USD''),
           (''line_items'',
              JArr [JObj [(''product_id'', JNum (Finite 9)), (''title'', JStr ''Widget''),
                          (''quantity'', JNum (Finite 2)), (''price'', JStr ''50'')]]),
           (''note_attributes'',
              JArr [JObj [(''name'', JStr ''gclid''), (''value'', JStr ''abc123'')]])]"

text \<open>The event that the handler builds from it.\<close>

definition sample_event :: jsval where
  "sample_event =
     JObj [(''client_id'', JStr ''77''), (''user_id'', JStr ''a@b.com''),
           (''non_personalized_ads'', JBool False),
           (''events'',
              JArr [JObj [(''name'', JStr ''purchase''),
                (''params'',
                   JObj [(''transaction_id'', JStr ''1001''),
                         (''value'', JNum (Finite (399 / 2))),
                         (''currency'', JStr ''USD''),
                         (''tax'', JNum (Finite 0)),
                         (''shipping'', JNum (Finite 0)),
                         (''coupon'', JUndefined),
                         (''items'',
                            JArr [JObj [(''item_id'', JStr ''9''),
                                        (''item_name'', JStr ''Widget''),
                                        (''quantity'', JNum (Finite 2)),
                                        (''price'', JNum (Finite 50)),
                                        (''item_brand'', JUndefined),
                                        (''item_variant'', JUndefined)]]),
                         (''gclid'', JStr ''abc123'')])]])]"

text \<open>
  The order of the specification's property P3, with the attribute name in mixed case, and
  the event of an order without totals and line items, for a given client and
  transaction identifier.
\<close>

definition client_order :: jsval where
  "client_order =
     JObj [(''id'', JNum (Finite 1001)),
           (''customer'', JObj [(''id'', JNum (Finite 555))]),
           (''note_attributes'',
              JArr [JObj [(''name'', JStr ''Client_ID''), (''value'', JStr ''abc'')]])]"

definition bare_event :: "string \<Rightarrow> string \<Rightarrow> jsval" where
  "bare_event client_id transaction_id =
     JObj [(''client_id'', JStr client_id),
           (''non_personalized_ads'', JBool False),
           (''events'',
              JArr [JObj [(''name'', JStr ''purchase''),
                (''params'',
                   JObj [(''transaction_id'', JStr transaction_id),
                         (''value'', JNum (Finite 0)),
                         (''currency'', JStr ''INR''),
                         (''tax'', JNum (Finite 0)),
                         (''shipping'', JNum (Finite 0)),
                         (''coupon'', JUndefined),
                         (''items'', JArr [])])]])]"

definition sample_digest :: string where
  "sample_digest = ''47DEQpj8HBSa+/TImW+5JCeuQeRkm5NMpJWZG3hSuFU=''"

definition sample_runtime :: "jsval result \<Rightarrow> string result \<Rightarrow> runtime" where
  "sample_runtime parsed answer =
     \<lparr>chunk_to_string = (\<lambda>chunk. chunk),
      hmac_sha256_base64 = (\<lambda>key msg. sample_digest),
      JSON_parse = (\<lambda>text. parsed),
      fetch_text = (\<lambda>endpoint payload. answer),
      to_double = Finite,
      shortest_integer = (\<lambda>n. n),
      double_to_string = (\<lambda>r. ''0.5'')\<rparr>"

definition sample_env :: "string option \<Rightarrow> process_env" where
  "sample_env secret =
     \<lparr>env_GA4_MEASUREMENT_ID = Some ''G-TEST'', env_GA4_API_SECRET = Some ''key'',
      env_SHOPIFY_WEBHOOK_SECRET = secret, env_GA4_DEBUG_MODE = None\<rparr>"

definition sample_request :: "string option \<Rightarrow> request" where
  \<open>sample_request hmacHeader =
     \<lparr>req_method = ''POST'',
      req_headers = (\<lambda>name. if name = ''x-shopify-hmac-sha256'' then hmacHeader else None),
      req_chunks = [''{"id":'', ''1001}'']\<rparr>\<close>

section \<open>Properties\<close>

subsection \<open>Sequencing\<close>

lemma then_do_Inl [simp]: "then_do (Inl e) f = Inl e"
  by (simp add: then_do_def)

lemma then_do_Inr [simp]: "then_do (Inr x) f = f x"
  by (simp add: then_do_def)

lemma then_do_eq_Inr: "then_do m f = Inr y \<longleftrightarrow> (\<exists>x. m = Inr x \<and> f x = Inr y)"
  by (cases m) simp_all

subsection \<open>Numbers and strings\<close>

lemma digits_of_nat_nonempty: "digits_of_nat n \<noteq> []"
  by (subst digits_of_nat.simps) simp

lemma to_string_well_formed_id:
  "well_formed_id v \<Longrightarrow> to_string rt v = Inr s \<Longrightarrow> s \<noteq> []"
  by (auto simp: well_formed_id_def digits_of_nat_nonempty split: jsval.splits number.splits)

lemma parseFloat_string_zero: "parseFloat_string rt ''0'' = Finite 0"
  by (simp add: parseFloat_string_def scan_unsigned_def ws1_def ws2_def ws3_def is_digit_def digits_val_def
        pow10_def scan_exponent_def round_double_def is_int_rat_def)

lemma number_to_string_zero: "number_to_string rt (Finite 0) = ''0''"
  by (simp add: is_int_rat_def digits_of_nat.simps)

lemma pf_undefined: "parseFloat_string rt ''undefined'' = NaN"
  by (simp add: parseFloat_string_def scan_unsigned_def ws1_def ws2_def ws3_def is_digit_def)
lemma pf_null: "parseFloat_string rt ''null'' = NaN"
  by (simp add: parseFloat_string_def scan_unsigned_def ws1_def ws2_def ws3_def is_digit_def)
lemma pf_false: "parseFloat_string rt ''false'' = NaN"
  by (simp add: parseFloat_string_def scan_unsigned_def ws1_def ws2_def ws3_def is_digit_def)
lemma pf_NaN: "parseFloat_string rt ''NaN'' = NaN"
  by (simp add: parseFloat_string_def scan_unsigned_def ws1_def ws2_def ws3_def is_digit_def)
lemma pf_empty: "parseFloat_string rt [] = NaN"
  by (simp add: parseFloat_string_def scan_unsigned_def ws1_def ws2_def ws3_def is_digit_def)

lemma toNumber_falsy:
  "\<not> truthy v \<Longrightarrow> toNumber rt v (Finite 0) = Inr (Finite 0)"
  by (cases v rule: truthy.cases)
     (simp_all add: toNumber_def parseFloat_def pf_undefined pf_null pf_false pf_NaN pf_empty
        parseFloat_string_zero number_to_string_zero del: number_to_string.simps(4))

lemma toNumber_finite: "toNumber rt v (Finite 0) = Inr n \<Longrightarrow> isFinite n"
  by (auto simp: toNumber_def then_do_eq_Inr split: if_splits)


lemma js_or_truthy: "truthy a \<Longrightarrow> js_or a b = a"
  by (simp add: js_or_def)

lemma js_or_falsy: "\<not> truthy a \<Longrightarrow> js_or a b = b"
  by (simp add: js_or_def)

text \<open>White space beyond ASCII is skipped; a small integer reads back as itself.\<close>

lemma parseFloat_skips_no_break_space: "parseFloat_string rt [CHR 0xC2, CHR 0xA0, CHR ''7''] = Finite 7"
  by (simp add: parseFloat_string_def scan_unsigned_def scan_exponent_def ws1_def ws2_def ws3_def
      is_digit_def digits_val_def pow10_def round_double_def is_int_rat_def)

lemma parseFloat_skips_byte_order_mark: "parseFloat_string rt [CHR 0xEF, CHR 0xBB, CHR 0xBF, CHR ''7'', CHR ''x''] = Finite 7"
  by (simp add: parseFloat_string_def scan_unsigned_def scan_exponent_def ws1_def ws2_def ws3_def
      is_digit_def digits_val_def pow10_def round_double_def is_int_rat_def)

lemma skip_space_id: "s \<noteq> [] \<Longrightarrow> \<not> space_lead (hd s) \<Longrightarrow> skip_space s = s"
  by (cases s rule: skip_space.cases) (auto simp: space_lead_def ws1_def ws2_def ws3_def)

lemma digit_chars:
  "d < 10 \<Longrightarrow> is_digit (''0123456789'' ! d) \<and> (of_char (''0123456789'' ! d) :: nat) = 48 + d"
proof -
  assume "d < 10"
  then have "d \<in> {0, 1, 2, 3, 4, 5, 6, 7, 8, 9}" by auto
  then show ?thesis
    by (auto simp: is_digit_def)
qed

lemma digits_of_nat_digits: "list_all is_digit (digits_of_nat n)"
proof (induction n rule: digits_of_nat.induct)
  case (1 n)
  then show ?case
    by (subst digits_of_nat.simps) (auto simp: digit_chars)
qed

lemma digits_val_append: "digits_val (ds @ [c]) = 10 * digits_val ds + (of_char c - 48)"
  by (simp add: digits_val_def)

lemma digits_val_digits_of_nat: "digits_val (digits_of_nat n) = n"
proof (induction n rule: digits_of_nat.induct)
  case (1 n)
  show ?case
  proof (cases "n < 10")
    case True
    then show ?thesis
      by (subst digits_of_nat.simps) (simp add: digits_val_def digit_chars)
  next
    case False
    with 1 have "digits_val (digits_of_nat (n div 10)) = n div 10" by simp
    with False show ?thesis
      by (subst digits_of_nat.simps) (simp add: digits_val_append digit_chars)
  qed
qed


lemma scan_unsigned_digits:
  assumes "list_all is_digit ds" and "ds \<noteq> []"
  shows "scan_unsigned ds = Some (of_nat (digits_val ds))"
proof -
  from assms(1) have tw: "takeWhile is_digit ds = ds" and dw: "dropWhile is_digit ds = []"
    by (simp_all add: list_all_iff)
  show ?thesis
    unfolding scan_unsigned_def tw dw using assms(2)
    by (simp add: scan_exponent_def pow10_def)
qed

lemma parseFloat_string_digits:
  assumes "list_all is_digit ds" and "ds \<noteq> []" and "of_nat (digits_val ds) \<le> (2 :: rat) ^ 53"
  shows "parseFloat_string rt ds = Finite (of_nat (digits_val ds))"
    and "parseFloat_string rt (CHR ''-'' # ds) = Finite (- of_nat (digits_val ds))"
proof -
  from assms(1,2) have hd: "is_digit (hd ds)"
    by (cases ds) simp_all
  then have lead: "\<not> space_lead (hd ds)" "hd ds \<noteq> CHR ''-''" "hd ds \<noteq> CHR ''+''"
    "hd ds \<noteq> CHR ''I''"
    by (auto simp: is_digit_def space_lead_def)
  from lead(4) assms(2) have inf: "take 8 ds \<noteq> ''Infinity''"
    by (cases ds) auto
  have int: "is_int_rat (of_nat (digits_val ds))" "is_int_rat (- of_nat (digits_val ds))"
    by (simp_all add: is_int_rat_def)
  have skip: "skip_space ds = ds" "skip_space (CHR ''-'' # ds) = CHR ''-'' # ds"
    using assms(2) lead(1) by (simp_all add: skip_space_id space_lead_def)
  show "parseFloat_string rt ds = Finite (of_nat (digits_val ds))"
    using assms lead inf int
    by (simp add: parseFloat_string_def skip(1) scan_unsigned_digits round_double_def)
  show "parseFloat_string rt (CHR ''-'' # ds) = Finite (- of_nat (digits_val ds))"
    using assms lead inf int
    by (simp add: parseFloat_string_def skip(2) scan_unsigned_digits round_double_def)
qed

lemma parseFloat_small_integer:
  assumes "is_int_rat k" and "\<bar>k\<bar> \<le> 2 ^ 53"
  shows "parseFloat rt (JNum (Finite k)) = Inr (Finite k)"
proof -
  let ?n = "nat \<bar>\<lfloor>k\<rfloor>\<bar>"
  from assms(1) have "of_int \<lfloor>k\<rfloor> = k"
    unfolding is_int_rat_def .
  then have k: "k = of_int \<lfloor>k\<rfloor>"
    by (rule sym)
  have abs: "\<bar>k\<bar> = of_nat ?n"
    by (subst k) simp
  have small: "\<bar>k\<bar> < 10 ^ 21"
    using assms(2) by (rule le_less_trans) simp
  have printed: "number_to_string rt (Finite k) = (if k < 0 then ''-'' else '''') @ digits_of_nat ?n"
    using assms small by simp
  have ds: "list_all is_digit (digits_of_nat ?n)" "digits_of_nat ?n \<noteq> []"
    "of_nat (digits_val (digits_of_nat ?n)) \<le> (2 :: rat) ^ 53"
    using assms(2) abs by (simp_all add: digits_of_nat_digits digits_of_nat_nonempty
        digits_val_digits_of_nat)
  note pf = parseFloat_string_digits [OF ds, of rt, unfolded digits_val_digits_of_nat]
  have "parseFloat_string rt (number_to_string rt (Finite k)) = Finite k"
  proof (cases "k < 0")
    case True
    then have eq: "- of_nat ?n = k" using abs by linarith
    have "parseFloat_string rt (number_to_string rt (Finite k))
        = parseFloat_string rt (CHR ''-'' # digits_of_nat ?n)"
      unfolding printed using True by simp
    also have "\<dots> = Finite (- of_nat ?n)" by (rule pf(2))
    also have "\<dots> = Finite k" by (simp only: eq)
    finally show ?thesis .
  next
    case False
    then have eq: "of_nat ?n = k" using abs by linarith
    have "parseFloat_string rt (number_to_string rt (Finite k))
        = parseFloat_string rt (digits_of_nat ?n)"
      unfolding printed using False by simp
    also have "\<dots> = Finite (of_nat ?n)" by (rule pf(1))
    also have "\<dots> = Finite k" by (simp only: eq)
    finally show ?thesis .
  qed
  then show ?thesis
    by (simp add: parseFloat_def del: number_to_string.simps)
qed


lemma converted_iff_toNumber:
  "toNumber rt v (Finite 0) = Inr (Finite r) \<longleftrightarrow> converted rt v r"
proof (cases "parseFloat rt v")
  case (Inl e)
  then show ?thesis by (simp add: toNumber_def converted_def)
next
  case (Inr n)
  then show ?thesis
    by (cases n) (auto simp: toNumber_def converted_def number_or_zero_def)
qed

lemma converted_string:
  "converted rt (JStr s) r \<longleftrightarrow> r = number_or_zero (parseFloat_string rt s)"
  by (simp add: converted_def parseFloat_def)

lemma converted_small_integer:
  "is_int_rat k \<Longrightarrow> \<bar>k\<bar> \<le> 2 ^ 53 \<Longrightarrow> converted rt (JNum (Finite k)) r \<longleftrightarrow> r = k"
  by (simp add: converted_def parseFloat_small_integer number_or_zero_def)

subsection \<open>The shape of a successful mapping\<close>

lemma line_item_Inr:
  assumes "line_item rt order item = Inr li"
  shows "\<exists>item_id price.
           toNumber rt
             (js_or (js_or (opt_prop item ''price'')
                           (opt_prop (opt_prop (opt_prop item ''price_set'') ''shop_money'') ''amount''))
                    (JNum (Finite 0)))
             (Finite 0) = Inr price
         \<and> li = JObj
             [(''item_id'', JStr item_id),
              (''item_name'', js_or (opt_prop item ''title'') (opt_prop item ''name'')),
              (''quantity'', js_or (opt_prop item ''quantity'') (JNum (Finite 1))),
              (''price'', JNum price),
              (''item_brand'', js_or (opt_prop (opt_prop order ''line_items'') ''vendor'') JUndefined),
              (''item_variant'', js_or (opt_prop item ''variant_title'') JUndefined)]"
  using assms by (auto simp: line_item_def then_do_eq_Inr split: if_splits)

lemma map_result_Inr:
  "map_result f xs = Inr ys \<Longrightarrow> list_all2 (\<lambda>x y. f x = Inr y) xs ys"
  by (induction xs arbitrary: ys) (auto simp: then_do_eq_Inr)

lemma items_Inr:
  assumes "items rt order = Inr its"
  shows "\<exists>xs. js_or (opt_prop order ''line_items'') (JArr []) = JArr xs
           \<and> list_all2 (\<lambda>item li. line_item rt order item = Inr li) xs its"
proof -
  from assms obtain li where li: "get_prop order ''line_items'' = Inr li"
    and m: "(case js_or li (JArr []) of JArr xs \<Rightarrow> map_result (line_item rt order) xs
             | _ \<Rightarrow> Inl TypeError) = Inr its"
    by (auto simp: items_def then_do_eq_Inr)
  from li have eq: "li = opt_prop order ''line_items''"
    by (cases order) auto
  from m obtain xs where xs: "js_or li (JArr []) = JArr xs"
    and r: "map_result (line_item rt order) xs = Inr its"
    by (auto split: jsval.splits)
  from r have "list_all2 (\<lambda>item li. line_item rt order item = Inr li) xs its"
    by (rule map_result_Inr)
  with xs eq show ?thesis by auto
qed

lemma vendor_of_collection:
  "js_or v (JArr []) = JArr xs \<Longrightarrow> js_or (opt_prop v ''vendor'') JUndefined = JUndefined"
  by (cases v) (auto simp: js_or_def split: if_splits)


lemma ga4Event_Inr:
  assumes "ga4Event rt order = Inr ev"
  shows "\<exists>cid attrib its client_id ps.
           clientId rt order = Inr cid \<and> attribution order = Inr attrib
         \<and> items rt order = Inr its \<and> to_string rt cid = Inr client_id
         \<and> params rt order attrib its = Inr ps
         \<and> ev = JObj
             ([(''client_id'', JStr client_id)]
              @ (if truthy (userId order) then [(''user_id'', userId order)] else [])
              @ [(''non_personalized_ads'', JBool False),
                 (''events'', JArr [JObj [(''name'', JStr ''purchase''), (''params'', JObj ps)]])])"
  using assms unfolding ga4Event_def then_do_eq_Inr by blast

lemma event_params_ga4Event:
  assumes "ev = JObj
             ([(''client_id'', c)]
              @ (if u then [(''user_id'', w)] else [])
              @ [(''non_personalized_ads'', JBool False),
                 (''events'', JArr [JObj [(''name'', JStr ''purchase''), (''params'', JObj ps)]])])"
  shows "event_params ev = Some ps"
    and "event_params (JSON_stringify ev) = Some (stringify_members ps)"
    and "opt_prop ev ''client_id'' = c"
  using assms by (simp_all add: event_params_def)

lemma params_Inr:
  assumes "params rt order attrib its = Inr ps"
  shows "\<exists>transaction_id val tax shipping.
           then_do (get_prop order ''id'') (to_string rt) = Inr transaction_id
         \<and> toNumber rt
               (js_or (js_or (opt_prop order ''total_price'') (opt_prop order ''current_total_price''))
                      (opt_prop (opt_prop (opt_prop order ''total_price_set'') ''shop_money'')
                         ''amount''))
               (Finite 0) = Inr val
         \<and> toNumber rt (js_or (opt_prop order ''total_tax'') (JNum (Finite 0))) (Finite 0) = Inr tax
         \<and> toNumber rt
               (js_or (opt_prop (opt_prop (opt_prop order ''total_shipping_price_set'')
                                   ''shop_money'') ''amount'')
                      (JNum (Finite 0)))
               (Finite 0) = Inr shipping
         \<and> ps = [(''transaction_id'', JStr transaction_id),
                 (''value'', JNum val),
                 (''currency'',
                    js_or (js_or (opt_prop order ''currency'') (opt_prop order ''presentment_currency''))
                          (JStr ''INR'')),
                 (''tax'', JNum tax),
                 (''shipping'', JNum shipping),
                 (''coupon'',
                    js_or (opt_prop (opt_first (opt_prop order ''discount_codes'')) ''code'') JUndefined),
                 (''items'', JArr its)]
                @ concat (map spread_if attrib)"
  using assms unfolding params_def then_do_eq_Inr by blast

lemma event_items_ga4Event:
  assumes "ga4Event rt order = Inr ev"
  shows "\<exists>its. items rt order = Inr its \<and> event_items ev = Some its
             \<and> event_items (JSON_stringify ev) = Some (stringify_elems its)"
proof -
  from ga4Event_Inr [OF assms] obtain cid attrib its client_id ps where
    its: "items rt order = Inr its" and ps: "params rt order attrib its = Inr ps"
    and ev: "ev = JObj
             ([(''client_id'', JStr client_id)]
              @ (if truthy (userId order) then [(''user_id'', userId order)] else [])
              @ [(''non_personalized_ads'', JBool False),
                 (''events'', JArr [JObj [(''name'', JStr ''purchase''), (''params'', JObj ps)]])])"
    by blast
  from params_Inr [OF ps] obtain pre where pre: "ps = pre @ concat (map spread_if attrib)"
    and m: "map_of pre ''items'' = Some (JArr its)"
    and sm: "map_of (stringify_members pre) ''items'' = Some (JArr (stringify_elems its))"
    by (auto simp: js_or_def)
  have 1: "event_items ev = Some its"
    using event_params_ga4Event(1) [OF ev] pre m by (simp add: event_items_def param_def)
  have app: "\<And>a b. stringify_members (a @ b) = stringify_members a @ stringify_members b"
    subgoal for a b by (induction a) auto
    done
  have 2: "event_items (JSON_stringify ev) = Some (stringify_elems its)"
    using event_params_ga4Event(2) [OF ev] pre sm by (simp add: event_items_def param_def app)
  from its 1 2 show ?thesis by blast
qed


text \<open>The definitions that evaluating the mapping on a concrete order unfolds.\<close>

lemmas eval_defs = ga4Event_def clientId_def attributes_def js_or_def getAttr_def
  attribution_def attribution_keys_def items_def params_def userId_def spread_if_def toNumber_def
  parseFloat_def name_matches_def toLowerCase_def lower_char_def line_item_def
  parseFloat_string_def scan_unsigned_def scan_exponent_def ws1_def ws2_def ws3_def is_digit_def
  digits_val_def pow10_def round_double_def is_int_rat_def digits_of_nat.simps


lemma ga4Event_sample_order:
  "ga4Event (sample_runtime parsed answer) sample_order = Inr sample_event"
  by (simp add: eval_defs sample_runtime_def sample_order_def sample_event_def)

lemma stringify_members_keys:
  "fst ` set (stringify_members kvs) = fst ` {kv \<in> set kvs. snd kv \<noteq> JUndefined}"
  by (induction kvs) auto

lemma has_key_stringify:
  "has_key (JObj (stringify_members kvs)) k \<longleftrightarrow> (\<exists>v. (k, v) \<in> set kvs \<and> v \<noteq> JUndefined)"
  by (force simp: has_key_def stringify_members_keys)

subsection \<open>Signature verification\<close>

lemma verify_header_absent:
  "SHOPIFY_WEBHOOK_SECRET env \<noteq> [] \<Longrightarrow> req_headers req ''x-shopify-hmac-sha256'' = None
   \<Longrightarrow> verifyShopifyHmac rt env req rawBody = Inr False"
  by (simp add: verifyShopifyHmac_def)

lemma verify_same_length:
  "SHOPIFY_WEBHOOK_SECRET env \<noteq> [] \<Longrightarrow> req_headers req ''x-shopify-hmac-sha256'' = Some h
   \<Longrightarrow> h \<noteq> []
   \<Longrightarrow> length h = length (hmac_sha256_base64 rt (SHOPIFY_WEBHOOK_SECRET env) rawBody)
   \<Longrightarrow> verifyShopifyHmac rt env req rawBody
         = Inr (h = hmac_sha256_base64 rt (SHOPIFY_WEBHOOK_SECRET env) rawBody)"
  by (simp add: verifyShopifyHmac_def timingSafeEqual_def)

lemma verify_other_length:
  "SHOPIFY_WEBHOOK_SECRET env \<noteq> [] \<Longrightarrow> req_headers req ''x-shopify-hmac-sha256'' = Some h
   \<Longrightarrow> h \<noteq> []
   \<Longrightarrow> length h \<noteq> length (hmac_sha256_base64 rt (SHOPIFY_WEBHOOK_SECRET env) rawBody)
   \<Longrightarrow> verifyShopifyHmac rt env req rawBody = Inl RangeError"
  by (simp add: verifyShopifyHmac_def timingSafeEqual_def)

lemma handler_rejects_unverified:
  "req_method req = ''POST'' \<Longrightarrow> verifyShopifyHmac rt env req (raw_body rt req) = Inr False
   \<Longrightarrow> handler rt env req
         = (\<lparr>status = 401, body = error_body ''Invalid HMAC signature''\<rparr>, [])"
  by (simp add: handler_def handler_try_def)

lemma handler_verify_throws:
  "req_method req = ''POST'' \<Longrightarrow> verifyShopifyHmac rt env req (raw_body rt req) = Inl e
   \<Longrightarrow> handler rt env req = (\<lparr>status = 500, body = error_body ''Internal error''\<rparr>, [])"
  by (simp add: handler_def handler_try_def)

text \<open>
  The part of C1 that the code meets: with a secret configured, a POST without the
  header, with an empty header, or with a wrong header of the digest's length is answered
  401 and nothing is sent to the collector.
\<close>

lemma handler_401_absent_or_same_length:
  assumes "SHOPIFY_WEBHOOK_SECRET env \<noteq> []" and "req_method req = ''POST''"
    and "req_headers req ''x-shopify-hmac-sha256'' = None
         \<or> req_headers req ''x-shopify-hmac-sha256'' = Some []
         \<or> (\<exists>h. req_headers req ''x-shopify-hmac-sha256'' = Some h
               \<and> length h = length (hmac_sha256_base64 rt (SHOPIFY_WEBHOOK_SECRET env)
                                      (raw_body rt req))
               \<and> h \<noteq> hmac_sha256_base64 rt (SHOPIFY_WEBHOOK_SECRET env)
                                      (raw_body rt req))"
  shows "handler rt env req
         = (\<lparr>status = 401, body = error_body ''Invalid HMAC signature''\<rparr>, [])"
proof -
  have "verifyShopifyHmac rt env req (raw_body rt req) = Inr False"
    using assms(1,3) by (auto simp: verifyShopifyHmac_def timingSafeEqual_def)
  then show ?thesis
    using assms(2) by (rule handler_rejects_unverified [rotated])
qed

text \<open>
  C1. With the secret configured, every request whose signature header is absent or
  differs from the digest is to be answered 401 with
  \<^verbatim>\<open>{"error": "Invalid HMAC signature"}\<close>, a prefix of the right value included. The
  code does so only for headers of the digest's length: for any other non-empty header
  \<^verbatim>\<open>crypto.timingSafeEqual\<close> throws, the \<^verbatim>\<open>catch\<close> clause answers, and the response
  is 500 with \<^verbatim>\<open>{"error": "Internal error"}\<close> (still without an outbound call).
\<close>

theorem C1_other_length_header_gives_500:
  assumes "SHOPIFY_WEBHOOK_SECRET env \<noteq> []" and "req_method req = ''POST''"
    and "req_headers req ''x-shopify-hmac-sha256'' = Some h" and "h \<noteq> []"
    and "length h \<noteq> length (hmac_sha256_base64 rt (SHOPIFY_WEBHOOK_SECRET env)
                              (raw_body rt req))"
  shows "handler rt env req = (\<lparr>status = 500, body = error_body ''Internal error''\<rparr>, [])"
  using assms by (simp add: handler_verify_throws verify_other_length)

theorem C1_prefix_header_witness:
  "handler (sample_runtime (Inr sample_order) (Inr ''{}'')) (sample_env (Some ''shh''))
     (sample_request (Some (take 10 sample_digest)))
   = (\<lparr>status = 500, body = error_body ''Internal error''\<rparr>, [])
   \<and> take 10 sample_digest \<noteq> sample_digest"
  using C1_other_length_header_gives_500
          [of "sample_env (Some ''shh'')" "sample_request (Some (take 10 sample_digest))"
              "take 10 sample_digest" "sample_runtime (Inr sample_order) (Inr ''{}'')"]
  by (simp add: sample_env_def sample_request_def sample_runtime_def sample_digest_def
        SHOPIFY_WEBHOOK_SECRET_def)

text \<open>
  C2. When the shared secret is unset or empty, \<^verbatim>\<open>verifyShopifyHmac\<close> returns true
  for every body and every header, present or not, and the handler never answers 401.
\<close>

theorem C2_unset_secret_accepts_everything:
  assumes "env_SHOPIFY_WEBHOOK_SECRET env = None \<or> env_SHOPIFY_WEBHOOK_SECRET env = Some []"
  shows "verifyShopifyHmac rt env req rawBody = Inr True
         \<and> status (fst (handler rt env req)) \<noteq> 401"
proof -
  have secret: "SHOPIFY_WEBHOOK_SECRET env = []"
    using assms by (auto simp: SHOPIFY_WEBHOOK_SECRET_def)
  then have ok: "\<And>raw. verifyShopifyHmac rt env req raw = Inr True"
    by (simp add: verifyShopifyHmac_def)
  have "status (fst (handler rt env req)) \<noteq> 401"
    by (simp add: handler_def handler_try_def ok Let_def split: sum.splits)
  with ok show ?thesis by simp
qed

theorem C2_unset_secret_witness:
  "verifyShopifyHmac (sample_runtime (Inr sample_order) (Inr ''{}'')) (sample_env None)
     (sample_request (Some ''forged'')) ''any body'' = Inr True
   \<and> status (fst (handler (sample_runtime (Inr sample_order) (Inr ''{}'')) (sample_env None)
                     (sample_request (Some ''forged'')))) \<noteq> 401"
  using C2_unset_secret_accepts_everything [of "sample_env None"]
  by (simp add: sample_env_def)

subsection \<open>Line items\<close>

text \<open>
  C8. In every event the handler builds, each normalized line item has
  \<^verbatim>\<open>item_brand\<close> undefined, and the serialized item has no such key: the items exist
  only when \<^verbatim>\<open>line_items\<close> is an array, and \<^verbatim>\<open>vendor\<close> is read from that array.
\<close>

theorem C8_item_brand_always_absent:
  assumes "ga4Event rt order = Inr ev"
  shows "\<exists>its. event_items ev = Some its
             \<and> event_items (JSON_stringify ev) = Some (stringify_elems its)
             \<and> (\<forall>it \<in> set its. opt_prop it ''item_brand'' = JUndefined
                               \<and> \<not> has_key (JSON_stringify it) ''item_brand'')"
proof -
  from event_items_ga4Event [OF assms] obtain its where
    its: "items rt order = Inr its" and e1: "event_items ev = Some its"
    and e2: "event_items (JSON_stringify ev) = Some (stringify_elems its)"
    by blast
  from items_Inr [OF its] obtain xs where
    xs: "js_or (opt_prop order ''line_items'') (JArr []) = JArr xs"
    and all2: "list_all2 (\<lambda>item li. line_item rt order item = Inr li) xs its"
    by blast
  have brand: "js_or (opt_prop (opt_prop order ''line_items'') ''vendor'') JUndefined = JUndefined"
    using xs by (rule vendor_of_collection)
  have "opt_prop it ''item_brand'' = JUndefined \<and> \<not> has_key (JSON_stringify it) ''item_brand''"
    if "it \<in> set its" for it
  proof -
    from that all2 obtain item where "line_item rt order item = Inr it"
      by (auto simp: list_all2_conv_all_nth in_set_conv_nth)
    from line_item_Inr [OF this] brand show ?thesis
      by (auto simp: has_key_stringify simp del: stringify_members.simps)
  qed
  with e1 e2 show ?thesis by blast
qed

theorem C8_item_brand_witness:
  "event_items sample_event
     = Some [JObj [(''item_id'', JStr ''9''), (''item_name'', JStr ''Widget''),
                   (''quantity'', JNum (Finite 2)), (''price'', JNum (Finite 50)),
                   (''item_brand'', JUndefined), (''item_variant'', JUndefined)]]
   \<and> event_items (JSON_stringify sample_event)
     = Some [JObj [(''item_id'', JStr ''9''), (''item_name'', JStr ''Widget''),
                   (''quantity'', JNum (Finite 2)), (''price'', JNum (Finite 50))]]"
  using C8_item_brand_always_absent [OF ga4Event_sample_order]
  by (simp add: sample_event_def event_items_def param_def event_params_def)

lemma no_leading_number_not_finite:
  "no_leading_number s \<Longrightarrow> \<not> isFinite (parseFloat_string rt s)"
  by (auto simp: no_leading_number_def parseFloat_string_def Let_def)

lemma toNumber_no_leading_number:
  "no_leading_number s \<Longrightarrow> toNumber rt (JStr s) (Finite 0) = Inr (Finite 0)"
  by (simp add: toNumber_def parseFloat_def no_leading_number_not_finite)

lemma no_leading_number_example: "no_leading_number ''not-a-number''"
  by (simp add: no_leading_number_def scan_unsigned_def ws1_def ws2_def ws3_def is_digit_def)

text \<open>
  C4, as amended. For every source line item from which a normalized item is built (the
  item is not \<^verbatim>\<open>null\<close> and converting its id and price throws nothing): the
  normalized price is always a finite number, the number that \<^verbatim>\<open>parseFloat\<close> reads
  from the flat price when that is truthy, else from the nested shop-money amount, with 0
  in place of \<^verbatim>\<open>NaN\<close> and the infinities; it is 0 when neither source is truthy, and
  when the price is a non-empty string that does not start with a decimal literal, such as
  \<^verbatim>\<open>not-a-number\<close>; a falsy quantity gives quantity 1, and a truthy quantity is passed
  through unconverted, whatever its type.
\<close>

theorem C4_price_and_quantity_defaults:
  assumes "line_item rt order item = Inr li"
  shows "(\<exists>p. opt_prop li ''price'' = JNum (Finite p)
            \<and> (truthy (opt_prop item ''price'') \<longrightarrow> converted rt (opt_prop item ''price'') p)
            \<and> (\<not> truthy (opt_prop item ''price'')
                 \<and> truthy (opt_prop (opt_prop (opt_prop item ''price_set'') ''shop_money'')
                             ''amount'')
               \<longrightarrow> converted rt
                     (opt_prop (opt_prop (opt_prop item ''price_set'') ''shop_money'') ''amount'')
                     p))
       \<and> (\<not> truthy (opt_prop item ''price'')
          \<and> \<not> truthy (opt_prop (opt_prop (opt_prop item ''price_set'') ''shop_money'') ''amount'')
          \<longrightarrow> opt_prop li ''price'' = JNum (Finite 0))
       \<and> (\<forall>s. opt_prop item ''price'' = JStr s \<and> s \<noteq> [] \<and> no_leading_number s
            \<longrightarrow> opt_prop li ''price'' = JNum (Finite 0))
       \<and> (opt_prop item ''price'' = JStr ''not-a-number''
            \<longrightarrow> opt_prop li ''price'' = JNum (Finite 0))
       \<and> (\<not> truthy (opt_prop item ''quantity'') \<longrightarrow> opt_prop li ''quantity'' = JNum (Finite 1))
       \<and> (truthy (opt_prop item ''quantity'')
            \<longrightarrow> opt_prop li ''quantity'' = opt_prop item ''quantity'')
       \<and> (\<forall>s r. converted rt (JStr s) r \<longleftrightarrow> r = number_or_zero (parseFloat_string rt s))
       \<and> (\<forall>k r. is_int_rat k \<and> \<bar>k\<bar> \<le> 2 ^ 53
              \<longrightarrow> (converted rt (JNum (Finite k)) r \<longleftrightarrow> r = k))"
proof -
  let ?price = "opt_prop item ''price''"
  let ?nested = "opt_prop (opt_prop (opt_prop item ''price_set'') ''shop_money'') ''amount''"
  from line_item_Inr [OF assms] obtain item_id price where
    price: "toNumber rt (js_or (js_or ?price ?nested) (JNum (Finite 0))) (Finite 0) = Inr price"
    and li: "opt_prop li ''price'' = JNum price"
            "opt_prop li ''quantity'' = js_or (opt_prop item ''quantity'') (JNum (Finite 1))"
    by auto
  from toNumber_finite [OF price] obtain p where p: "price = Finite p"
    by (cases price) auto
  have flat: "converted rt ?price p" if "truthy ?price"
    using price that unfolding p by (simp add: js_or_truthy converted_iff_toNumber)
  have nest: "converted rt ?nested p" if "\<not> truthy ?price" "truthy ?nested"
    using price that unfolding p by (simp add: js_or_truthy js_or_falsy converted_iff_toNumber)
  have missing: "price = Finite 0" if "\<not> truthy ?price" "\<not> truthy ?nested"
    using price that by (simp add: js_or_falsy toNumber_falsy)
  have nonnum: "price = Finite 0"
    if "?price = JStr s" "s \<noteq> []" "no_leading_number s" for s
    using price that by (simp add: js_or_truthy toNumber_no_leading_number)
  from nonnum [of "''not-a-number''"] have example: "price = Finite 0"
    if "?price = JStr ''not-a-number''"
    using that by (simp add: no_leading_number_example)
  have q0: "opt_prop li ''quantity'' = JNum (Finite 1)" if "\<not> truthy (opt_prop item ''quantity'')"
    using li(2) that by (simp add: js_or_falsy)
  have q1: "opt_prop li ''quantity'' = opt_prop item ''quantity''"
    if "truthy (opt_prop item ''quantity'')"
    using li(2) that by (simp add: js_or_truthy)
  have first: "\<exists>p. opt_prop li ''price'' = JNum (Finite p)
            \<and> (truthy ?price \<longrightarrow> converted rt ?price p)
            \<and> (\<not> truthy ?price \<and> truthy ?nested \<longrightarrow> converted rt ?nested p)"
    using li(1) p flat nest by blast
  from first missing nonnum example q0 q1 li(1) converted_string converted_small_integer
  show ?thesis by blast
qed

lemma line_item_defaults_example:
  "line_item (sample_runtime parsed answer) sample_order
     (JObj [(''product_id'', JNum (Finite 9)), (''price'', JStr ''not-a-number''),
            (''quantity'', JNum (Finite 0))])
   = Inr (JObj [(''item_id'', JStr ''9''), (''item_name'', JUndefined),
                (''quantity'', JNum (Finite 1)), (''price'', JNum (Finite 0)),
                (''item_brand'', JUndefined), (''item_variant'', JUndefined)])"
  by (simp add: eval_defs sample_runtime_def sample_order_def)

lemma line_item_quantity_example:
  "line_item (sample_runtime parsed answer) sample_order
     (JObj [(''product_id'', JNum (Finite 9)), (''price'', JStr ''50''),
            (''quantity'', JNum (Finite 2))])
   = Inr (JObj [(''item_id'', JStr ''9''), (''item_name'', JUndefined),
                (''quantity'', JNum (Finite 2)), (''price'', JNum (Finite 50)),
                (''item_brand'', JUndefined), (''item_variant'', JUndefined)])"
  by (simp add: eval_defs sample_runtime_def sample_order_def)

theorem C4_defaults_witness:
  "opt_prop (JObj [(''item_id'', JStr ''9''), (''item_name'', JUndefined),
                   (''quantity'', JNum (Finite 1)), (''price'', JNum (Finite 0)),
                   (''item_brand'', JUndefined), (''item_variant'', JUndefined)]) ''price''
     = JNum (Finite 0)
   \<and> opt_prop (JObj [(''item_id'', JStr ''9''), (''item_name'', JUndefined),
                   (''quantity'', JNum (Finite 1)), (''price'', JNum (Finite 0)),
                   (''item_brand'', JUndefined), (''item_variant'', JUndefined)]) ''quantity''
     = JNum (Finite 1)
   \<and> no_leading_number ''not-a-number''
   \<and> converted (sample_runtime (Inr sample_order) (Inr ''{}'')) (JStr ''50'') 50"
proof -
  let ?rt = "sample_runtime (Inr sample_order) (Inr ''{}'')"
  let ?item = "JObj [(''product_id'', JNum (Finite 9)), (''price'', JStr ''50''),
                     (''quantity'', JNum (Finite 2))]"
  let ?li = "JObj [(''item_id'', JStr ''9''), (''item_name'', JUndefined),
                   (''quantity'', JNum (Finite 2)), (''price'', JNum (Finite 50)),
                   (''item_brand'', JUndefined), (''item_variant'', JUndefined)]"
  from C4_price_and_quantity_defaults [OF line_item_quantity_example, of "Inr sample_order" "Inr ''{}''"]
  obtain p where p: "opt_prop ?li ''price'' = JNum (Finite p)"
    and c: "truthy (opt_prop ?item ''price'') \<longrightarrow> converted ?rt (opt_prop ?item ''price'') p"
    by blast
  from p have "p = 50" by simp
  with c have "converted ?rt (JStr ''50'') 50" by simp
  with C4_price_and_quantity_defaults [OF line_item_defaults_example] show ?thesis
    by (simp add: no_leading_number_example)
qed

text \<open>
  C4 as stated fails twice over: a quantity that is a non-numeric string is copied into
  the event as it is, and a line item that is \<^verbatim>\<open>null\<close> has no price yet gets no
  normalized price at all, since the mapping throws.
\<close>

theorem C4_text_quantity_counterexample:
  "line_item (sample_runtime (Inr sample_order) (Inr ''{}'')) sample_order
     (JObj [(''product_id'', JNum (Finite 9)), (''price'', JStr ''50''),
            (''quantity'', JStr ''lots'')])
   = Inr (JObj [(''item_id'', JStr ''9''), (''item_name'', JUndefined),
                (''quantity'', JStr ''lots''), (''price'', JNum (Finite 50)),
                (''item_brand'', JUndefined), (''item_variant'', JUndefined)])
   \<and> line_item (sample_runtime (Inr sample_order) (Inr ''{}'')) sample_order JNull
     = Inl TypeError"
  by (simp add: eval_defs sample_runtime_def sample_order_def)





subsection \<open>Attribute lookup\<close>

lemma array_find_Inr:
  "array_find p as = Inr a
   \<Longrightarrow> (a = JUndefined \<and> (\<forall>x \<in> set as. p x = Inr False)) \<or> (a \<in> set as \<and> p a = Inr True)"
  by (induction as) (auto simp: then_do_eq_Inr split: if_splits)

lemma name_matches_True:
  "name_matches key a = Inr True \<Longrightarrow> attr_named (toLowerCase key) a"
  by (auto simp: name_matches_def attr_named_def then_do_eq_Inr
      split: if_splits jsval.splits elim: get_prop.elims)

lemma getAttr_absent:
  assumes "getAttr (attributes order) key = Inr v"
    and "\<not> has_attribute order (toLowerCase key)"
  shows "v = JUndefined"
proof -
  from assms(1) obtain as a where as: "attributes order = JArr as"
    and a: "array_find (name_matches key) as = Inr a" and v: "v = opt_prop a ''value''"
    by (auto simp: getAttr_def then_do_eq_Inr split: jsval.splits)
  from assms(2) as have none: "\<forall>x \<in> set as. \<not> attr_named (toLowerCase key) x"
    by (simp add: has_attribute_def list_ex_iff)
  from array_find_Inr [OF a] none have "a = JUndefined"
    by (auto dest: name_matches_True)
  with v show ?thesis by simp
qed

lemma attribution_keys_lower: "k \<in> set attribution_keys \<Longrightarrow> toLowerCase k = k"
  by (auto simp: attribution_keys_def toLowerCase_def lower_char_def)

lemma attribution_Inr:
  assumes "attribution order = Inr attrib"
  shows "list_all2 (\<lambda>key kv. \<exists>v. getAttr (attributes order) key = Inr v \<and> kv = (key, js_or v JNull))
           attribution_keys attrib"
proof -
  from assms have "list_all2
      (\<lambda>key kv. then_do (getAttr (attributes order) key) (\<lambda>v. Inr (key, js_or v JNull)) = Inr kv)
      attribution_keys attrib"
    unfolding attribution_def by (rule map_result_Inr)
  then show ?thesis
    by (rule list_all2_mono) (auto simp: then_do_eq_Inr)
qed

lemma list_all2_right:
  "list_all2 P xs ys \<Longrightarrow> y \<in> set ys \<Longrightarrow> \<exists>x \<in> set xs. P x y"
  by (induction rule: list_all2_induct) auto

lemma attribution_absent:
  assumes "attribution order = Inr attrib"
    and "\<forall>k \<in> set attribution_keys. \<not> has_attribute order k"
  shows "concat (map spread_if attrib) = []"
proof -
  have "spread_if kv = []" if "kv \<in> set attrib" for kv
  proof -
    from list_all2_right [OF attribution_Inr [OF assms(1)] that] obtain key v where
      key: "key \<in> set attribution_keys" and v: "getAttr (attributes order) key = Inr v"
      and kv: "kv = (key, js_or v JNull)"
      by blast
    from key assms(2) have "\<not> has_attribute order (toLowerCase key)"
      by (simp add: attribution_keys_lower)
    from getAttr_absent [OF v this] kv show ?thesis
      by (simp add: spread_if_def js_or_def)
  qed
  then show ?thesis by simp
qed

subsection \<open>The handler's branches\<close>

lemma handler_outbound:
  assumes "(url, payload) \<in> set (snd (handler rt env req))"
  shows "\<exists>order ev. JSON_parse rt (raw_body rt req) = Inr order
           \<and> ga4Event rt order = Inr ev \<and> url = endpoint env \<and> payload = JSON_stringify ev"
  using assms
  by (auto simp: handler_def handler_try_def then_do_eq_Inr split: if_splits sum.splits bool.splits)

lemma handler_forwards:
  assumes "req_method req = ''POST''"
    and "verifyShopifyHmac rt env req (raw_body rt req) = Inr True"
    and "JSON_parse rt (raw_body rt req) = Inr order"
    and "ga4Event rt order = Inr ev"
  shows "snd (handler rt env req) = [(endpoint env, JSON_stringify ev)]"
    and "fetch_text rt (endpoint env) (JSON_stringify ev) = Inr text
         \<Longrightarrow> status (fst (handler rt env req)) = 200"
    and "fetch_text rt (endpoint env) (JSON_stringify ev) = Inl e
         \<Longrightarrow> fst (handler rt env req) = \<lparr>status = 500, body = error_body ''Internal error''\<rparr>"
  using assms by (auto simp: handler_def handler_try_def split: sum.splits)

lemma handler_mapping_throws:
  assumes "req_method req = ''POST''"
    and "verifyShopifyHmac rt env req (raw_body rt req) = Inr True"
    and "then_do (JSON_parse rt (raw_body rt req)) (ga4Event rt) = Inl e"
  shows "handler rt env req = (\<lparr>status = 500, body = error_body ''Internal error''\<rparr>, [])"
  using assms by (simp add: handler_def handler_try_def)

lemma fixed_params_keys:
  assumes "params rt order attrib its = Inr ps" and "concat (map spread_if attrib) = []"
  shows "map fst ps = [''transaction_id'', ''value'', ''currency'', ''tax'', ''shipping'',
                         ''coupon'', ''items'']"
proof -
  from params_Inr [OF assms(1)] obtain a b c d e f g where
    "ps = [(''transaction_id'', a), (''value'', b), (''currency'', c), (''tax'', d),
           (''shipping'', e), (''coupon'', f), (''items'', g)] @ concat (map spread_if attrib)"
    by blast
  with assms(2) show ?thesis by simp
qed


lemma attribution_keys_fresh:
  "k \<in> set attribution_keys
   \<Longrightarrow> k \<notin> set [''transaction_id'', ''value'', ''currency'', ''tax'', ''shipping'',
                   ''coupon'', ''items'']
     \<and> k \<notin> set [''client_id'', ''user_id'', ''non_personalized_ads'', ''events'']"
  unfolding attribution_keys_def by (elim rev_mp) simp

lemma stringify_members_subset: "fst ` set (stringify_members kvs) \<subseteq> set (map fst kvs)"
  unfolding stringify_members_keys by auto

lemma has_key_top_level:
  assumes "has_key (JSON_stringify (JObj
             ([(''client_id'', c)]
              @ (if u then [(''user_id'', w)] else [])
              @ [(''non_personalized_ads'', n), (''events'', e)]))) k"
  shows "k \<in> set [''client_id'', ''user_id'', ''non_personalized_ads'', ''events'']"
proof -
  from assms have "k \<in> fst ` set (stringify_members
             ([(''client_id'', c)]
              @ (if u then [(''user_id'', w)] else [])
              @ [(''non_personalized_ads'', n), (''events'', e)]))"
    by (simp add: has_key_def del: stringify_members.simps)
  then have "k \<in> set (map fst ([(''client_id'', c)]
              @ (if u then [(''user_id'', w)] else [])
              @ [(''non_personalized_ads'', n), (''events'', e)]))"
    using stringify_members_subset by blast
  then show ?thesis
    by (cases u) (simp_all, blast)
qed


lemma attribution_keys_not_item_keys:
  "k \<in> set attribution_keys
   \<Longrightarrow> k \<notin> set [''item_id'', ''item_name'', ''quantity'', ''price'', ''item_brand'',
                   ''item_variant'']"
  unfolding attribution_keys_def by (elim rev_mp) simp

lemma line_item_keys:
  assumes "line_item rt order item = Inr li" and "has_key (JSON_stringify li) k"
  shows "k \<in> set [''item_id'', ''item_name'', ''quantity'', ''price'', ''item_brand'',
                   ''item_variant'']"
proof -
  from line_item_Inr [OF assms(1)] obtain a b c d e f where
    li: "li = JObj [(''item_id'', a), (''item_name'', b), (''quantity'', c), (''price'', d),
                    (''item_brand'', e), (''item_variant'', f)]"
    by blast
  from assms(2) have "k \<in> fst ` set (stringify_members
      [(''item_id'', a), (''item_name'', b), (''quantity'', c), (''price'', d),
       (''item_brand'', e), (''item_variant'', f)])"
    unfolding li by (simp add: has_key_def del: stringify_members.simps)
  then have "k \<in> set (map fst
      [(''item_id'', a), (''item_name'', b), (''quantity'', c), (''price'', d),
       (''item_brand'', e), (''item_variant'', f)])"
    using stringify_members_subset by blast
  then show ?thesis by simp
qed

lemma set_stringify_elems: "set (stringify_elems xs) = JSON_stringify ` set xs"
  by (induction xs) auto

subsection \<open>Attribution fields\<close>

text \<open>
  C6. When the order carries no tracking attribute named \<^verbatim>\<open>gclid\<close>, \<^verbatim>\<open>gbraid\<close>,
  \<^verbatim>\<open>wbraid\<close> or one of the five \<^verbatim>\<open>utm_\<close> names, the body of every outbound
  call has a \<^verbatim>\<open>params\<close> object without any of these keys, and none of them at the top
  level or in a line item either: in every object that the handler builds the keys are
  absent, not null.
\<close>

theorem C6_no_attribution_keys:
  assumes "JSON_parse rt (raw_body rt req) = Inr order"
    and "\<forall>k \<in> set attribution_keys. \<not> has_attribute order k"
    and "(url, payload) \<in> set (snd (handler rt env req))"
  shows "\<exists>ps its. event_params payload = Some ps \<and> event_items payload = Some its
             \<and> (\<forall>k \<in> set attribution_keys.
                   k \<notin> fst ` set ps \<and> \<not> has_key payload k \<and> (\<forall>it \<in> set its. \<not> has_key it k))"
proof -
  from handler_outbound [OF assms(3)] assms(1) obtain ev where
    ev: "ga4Event rt order = Inr ev" and payload: "payload = JSON_stringify ev"
    by auto
  from ga4Event_Inr [OF ev] obtain cid attrib its client_id ps where
    attrib: "attribution order = Inr attrib" and ps: "params rt order attrib its = Inr ps"
    and shape: "ev = JObj
             ([(''client_id'', JStr client_id)]
              @ (if truthy (userId order) then [(''user_id'', userId order)] else [])
              @ [(''non_personalized_ads'', JBool False),
                 (''events'', JArr [JObj [(''name'', JStr ''purchase''), (''params'', JObj ps)]])])"
    by blast
  from event_items_ga4Event [OF ev] obtain xs where
    xs: "items rt order = Inr xs"
    and its: "event_items payload = Some (stringify_elems xs)"
    unfolding payload by blast
  from items_Inr [OF xs] obtain src where
    all2: "list_all2 (\<lambda>item li. line_item rt order item = Inr li) src xs"
    by blast
  have keys: "map fst ps = [''transaction_id'', ''value'', ''currency'', ''tax'', ''shipping'',
                            ''coupon'', ''items'']"
    using ps attribution_absent [OF attrib assms(2)] by (rule fixed_params_keys)
  have 1: "event_params payload = Some (stringify_members ps)"
    unfolding payload using shape by (rule event_params_ga4Event(2))
  have 2: "k \<notin> fst ` set (stringify_members ps)" if "k \<in> set attribution_keys" for k
    using attribution_keys_fresh [OF that] stringify_members_subset [of ps] unfolding keys
    by blast
  have 3: "\<not> has_key payload k" if "k \<in> set attribution_keys" for k
    using attribution_keys_fresh [OF that] has_key_top_level unfolding payload shape
    by blast
  have 4: "\<not> has_key it k" if "k \<in> set attribution_keys" "it \<in> set (stringify_elems xs)" for k it
  proof -
    from that(2) obtain li where li: "li \<in> set xs" and it: "it = JSON_stringify li"
      unfolding set_stringify_elems by blast
    from list_all2_right [OF all2 li] obtain item where "line_item rt order item = Inr li"
      by blast
    from line_item_keys [OF this] attribution_keys_not_item_keys [OF that(1)] show ?thesis
      unfolding it by blast
  qed
  from 1 2 3 4 its show ?thesis by blast
qed

subsection \<open>The handler on the concrete inputs\<close>

lemma ga4Event_client_order:
  "ga4Event (sample_runtime parsed answer) client_order = Inr (bare_event ''abc'' ''1001'')"
  by (simp add: eval_defs sample_runtime_def client_order_def bare_event_def)


lemma client_order_no_attribution:
  "\<forall>k \<in> set attribution_keys. \<not> has_attribute client_order k"
  by (simp add: attribution_keys_def has_attribute_def attr_named_def attributes_def js_or_def
        client_order_def toLowerCase_def lower_char_def)

lemma sample_verify_unset:
  "verifyShopifyHmac (sample_runtime parsed answer) (sample_env None) req raw = Inr True"
  by (simp add: verifyShopifyHmac_def SHOPIFY_WEBHOOK_SECRET_def sample_env_def)

lemma sample_request_POST: "req_method (sample_request h) = ''POST''"
  by (simp add: sample_request_def)

lemma sample_parse: "JSON_parse (sample_runtime parsed answer) raw = parsed"
  by (simp add: sample_runtime_def)

lemma sample_fetch: "fetch_text (sample_runtime parsed answer) url payload = answer"
  by (simp add: sample_runtime_def)

theorem C6_no_attribution_witness:
  "snd (handler (sample_runtime (Inr client_order) (Inr ''{}'')) (sample_env None)
          (sample_request None))
     = [(endpoint (sample_env None), JSON_stringify (bare_event ''abc'' ''1001''))]
   \<and> event_params (JSON_stringify (bare_event ''abc'' ''1001''))
     = Some [(''transaction_id'', JStr ''1001''), (''value'', JNum (Finite 0)),
             (''currency'', JStr ''INR''), (''tax'', JNum (Finite 0)),
             (''shipping'', JNum (Finite 0)), (''items'', JArr [])]"
proof -
  let ?rt = "sample_runtime (Inr client_order) (Inr ''{}'')"
  have sent: "snd (handler ?rt (sample_env None) (sample_request None))
      = [(endpoint (sample_env None), JSON_stringify (bare_event ''abc'' ''1001''))]"
    by (rule handler_forwards(1) [OF sample_request_POST sample_verify_unset sample_parse
          ga4Event_client_order])
  then have "(endpoint (sample_env None), JSON_stringify (bare_event ''abc'' ''1001''))
      \<in> set (snd (handler ?rt (sample_env None) (sample_request None)))"
    by simp
  from C6_no_attribution_keys [OF sample_parse client_order_no_attribution this] sent
  show ?thesis
    by (simp add: bare_event_def event_params_def)
qed

lemma get_prop_Inr: "get_prop v k = Inr x \<Longrightarrow> x = opt_prop v k"
  by (cases v) auto

lemma param_ga4Event:
  assumes "ev = JObj
             ([(''client_id'', c)]
              @ (if u then [(''user_id'', w)] else [])
              @ [(''non_personalized_ads'', JBool False),
                 (''events'', JArr [JObj [(''name'', JStr ''purchase''), (''params'', JObj ps)]])])"
  shows "param ev k = map_of ps k"
  using event_params_ga4Event(1) [OF assms] by (simp add: param_def)

text \<open>
  The end-to-end scenario of the specification: no secret configured, the sample order in
  the body; one call goes out, and its body carries \<^verbatim>\<open>gclid\<close> and neither
  \<^verbatim>\<open>coupon\<close> nor \<^verbatim>\<open>item_brand\<close>.
\<close>

lemma end_to_end_scenario:
  "snd (handler (sample_runtime (Inr sample_order) (Inr ''{}'')) (sample_env None)
          (sample_request None))
     = [(endpoint (sample_env None), JSON_stringify sample_event)]
   \<and> event_params (JSON_stringify sample_event)
     = Some [(''transaction_id'', JStr ''1001''), (''value'', JNum (Finite (399 / 2))),
             (''currency'', JStr ''USD''), (''tax'', JNum (Finite 0)),
             (''shipping'', JNum (Finite 0)),
             (''items'', JArr [JObj [(''item_id'', JStr ''9''), (''item_name'', JStr ''Widget''),
                                     (''quantity'', JNum (Finite 2)),
                                     (''price'', JNum (Finite 50))]]),
             (''gclid'', JStr ''abc123'')]"
  by (simp add: handler_forwards(1) [OF sample_request_POST sample_verify_unset sample_parse
          ga4Event_sample_order] sample_event_def event_params_def)

subsection \<open>Monetary totals\<close>

text \<open>
  C7, as amended. In every event the handler builds, \<^verbatim>\<open>value\<close>, \<^verbatim>\<open>tax\<close> and
  \<^verbatim>\<open>shipping\<close> are finite numbers. \<^verbatim>\<open>value\<close> is the number converted from
  \<^verbatim>\<open>total_price\<close> when that is truthy, else from \<^verbatim>\<open>current_total_price\<close> when
  that is truthy, else from the nested shop-money amount, and 0 when none is truthy;
  \<^verbatim>\<open>tax\<close> is converted from \<^verbatim>\<open>total_tax\<close> when truthy and is 0 otherwise;
  \<^verbatim>\<open>shipping\<close> is converted from the nested shop-money shipping amount, and from
  nothing else, when truthy and is 0 otherwise; \<^verbatim>\<open>currency\<close> is \<^verbatim>\<open>currency\<close> when
  truthy, else \<^verbatim>\<open>presentment_currency\<close> when truthy, else \<^verbatim>\<open>INR\<close>. Converting
  reads the number with \<^verbatim>\<open>parseFloat\<close> and puts 0 in place of \<^verbatim>\<open>NaN\<close> and the
  infinities: a string gives the decimal literal it starts with, a small integer itself.
\<close>

theorem C7_monetary_totals:
  assumes "ga4Event rt order = Inr ev"
  shows "(\<exists>val tax shipping.
           param ev ''value'' = Some (JNum (Finite val))
         \<and> param ev ''tax'' = Some (JNum (Finite tax))
         \<and> param ev ''shipping'' = Some (JNum (Finite shipping))
         \<and> (truthy (opt_prop order ''total_price'')
              \<longrightarrow> converted rt (opt_prop order ''total_price'') val)
         \<and> (\<not> truthy (opt_prop order ''total_price'')
              \<and> truthy (opt_prop order ''current_total_price'')
              \<longrightarrow> converted rt (opt_prop order ''current_total_price'') val)
         \<and> (\<not> truthy (opt_prop order ''total_price'')
              \<and> \<not> truthy (opt_prop order ''current_total_price'')
              \<longrightarrow> converted rt
                      (opt_prop (opt_prop (opt_prop order ''total_price_set'') ''shop_money'')
                         ''amount'') val)
         \<and> (\<not> truthy (opt_prop order ''total_price'')
              \<and> \<not> truthy (opt_prop order ''current_total_price'')
              \<and> \<not> truthy (opt_prop (opt_prop (opt_prop order ''total_price_set'') ''shop_money'')
                             ''amount'')
              \<longrightarrow> val = 0)
         \<and> (truthy (opt_prop order ''total_tax'')
              \<longrightarrow> converted rt (opt_prop order ''total_tax'') tax)
         \<and> (\<not> truthy (opt_prop order ''total_tax'') \<longrightarrow> tax = 0)
         \<and> (truthy (opt_prop (opt_prop (opt_prop order ''total_shipping_price_set'')
                                 ''shop_money'') ''amount'')
              \<longrightarrow> converted rt
                      (opt_prop (opt_prop (opt_prop order ''total_shipping_price_set'')
                                   ''shop_money'') ''amount'') shipping)
         \<and> (\<not> truthy (opt_prop (opt_prop (opt_prop order ''total_shipping_price_set'')
                                   ''shop_money'') ''amount'')
              \<longrightarrow> shipping = 0))
       \<and> param ev ''currency''
           = Some (if truthy (opt_prop order ''currency'') then opt_prop order ''currency''
                   else if truthy (opt_prop order ''presentment_currency'')
                   then opt_prop order ''presentment_currency''
                   else JStr ''INR'')
       \<and> (\<forall>s r. converted rt (JStr s) r \<longleftrightarrow> r = number_or_zero (parseFloat_string rt s))
       \<and> (\<forall>k r. is_int_rat k \<and> \<bar>k\<bar> \<le> 2 ^ 53
              \<longrightarrow> (converted rt (JNum (Finite k)) r \<longleftrightarrow> r = k))"
proof -
  from ga4Event_Inr [OF assms] obtain cid attrib its client_id ps where
    ps: "params rt order attrib its = Inr ps"
    and shape: "ev = JObj
             ([(''client_id'', JStr client_id)]
              @ (if truthy (userId order) then [(''user_id'', userId order)] else [])
              @ [(''non_personalized_ads'', JBool False),
                 (''events'', JArr [JObj [(''name'', JStr ''purchase''), (''params'', JObj ps)]])])"
    by blast
  let ?tp = "opt_prop order ''total_price''"
  let ?ctp = "opt_prop order ''current_total_price''"
  let ?nested = "opt_prop (opt_prop (opt_prop order ''total_price_set'') ''shop_money'') ''amount''"
  let ?tt = "opt_prop order ''total_tax''"
  let ?sa = "opt_prop (opt_prop (opt_prop order ''total_shipping_price_set'') ''shop_money'')
               ''amount''"
  from params_Inr [OF ps] obtain transaction_id val tax shipping rest where
    val: "toNumber rt (js_or (js_or ?tp ?ctp) ?nested) (Finite 0) = Inr val"
    and tax: "toNumber rt (js_or ?tt (JNum (Finite 0))) (Finite 0) = Inr tax"
    and shipping: "toNumber rt (js_or ?sa (JNum (Finite 0))) (Finite 0) = Inr shipping"
    and ps_eq: "ps = [(''transaction_id'', JStr transaction_id),
                 (''value'', JNum val),
                 (''currency'',
                    js_or (js_or (opt_prop order ''currency'') (opt_prop order ''presentment_currency''))
                          (JStr ''INR'')),
                 (''tax'', JNum tax),
                 (''shipping'', JNum shipping)] @ rest"
    by auto
  from toNumber_finite [OF val] obtain v where v: "val = Finite v" by (cases val) auto
  from toNumber_finite [OF tax] obtain t where t: "tax = Finite t" by (cases tax) auto
  from toNumber_finite [OF shipping] obtain s where s: "shipping = Finite s"
    by (cases shipping) auto
  have lookups: "param ev ''value'' = Some (JNum (Finite v))"
    "param ev ''tax'' = Some (JNum (Finite t))"
    "param ev ''shipping'' = Some (JNum (Finite s))"
    "param ev ''currency''
       = Some (js_or (js_or (opt_prop order ''currency'') (opt_prop order ''presentment_currency''))
                     (JStr ''INR''))"
    unfolding param_ga4Event [OF shape] ps_eq v t s by simp_all
  have v1: "converted rt ?tp v" if "truthy ?tp"
    using val that by (simp add: js_or_def v converted_iff_toNumber)
  have v2: "converted rt ?ctp v" if "\<not> truthy ?tp" "truthy ?ctp"
    using val that by (simp add: js_or_def v converted_iff_toNumber)
  have v3: "converted rt ?nested v" if "\<not> truthy ?tp" "\<not> truthy ?ctp"
    using val that by (simp add: js_or_def v converted_iff_toNumber)
  have v4: "v = 0" if "\<not> truthy ?tp" "\<not> truthy ?ctp" "\<not> truthy ?nested"
    using val that toNumber_falsy [OF that(3), of rt] by (simp add: js_or_def v)
  have t1: "converted rt ?tt t" if "truthy ?tt"
    using tax that by (simp add: js_or_def t converted_iff_toNumber)
  have t2: "t = 0" if "\<not> truthy ?tt"
    using tax that toNumber_falsy [of "JNum (Finite 0)" rt] by (simp add: js_or_def t)
  have s1: "converted rt ?sa s" if "truthy ?sa"
    using shipping that by (simp add: js_or_def s converted_iff_toNumber)
  have s2: "s = 0" if "\<not> truthy ?sa"
    using shipping that toNumber_falsy [of "JNum (Finite 0)" rt] by (simp add: js_or_def s)
  have cur: "param ev ''currency''
             = Some (if truthy (opt_prop order ''currency'') then opt_prop order ''currency''
                     else if truthy (opt_prop order ''presentment_currency'')
                     then opt_prop order ''presentment_currency''
                     else JStr ''INR'')"
    unfolding lookups(4) by (simp add: js_or_def)
  have totals: "\<exists>val tax shipping.
           param ev ''value'' = Some (JNum (Finite val))
         \<and> param ev ''tax'' = Some (JNum (Finite tax))
         \<and> param ev ''shipping'' = Some (JNum (Finite shipping))
         \<and> (truthy ?tp \<longrightarrow> converted rt ?tp val)
         \<and> (\<not> truthy ?tp \<and> truthy ?ctp \<longrightarrow> converted rt ?ctp val)
         \<and> (\<not> truthy ?tp \<and> \<not> truthy ?ctp \<longrightarrow> converted rt ?nested val)
         \<and> (\<not> truthy ?tp \<and> \<not> truthy ?ctp \<and> \<not> truthy ?nested \<longrightarrow> val = 0)
         \<and> (truthy ?tt \<longrightarrow> converted rt ?tt tax)
         \<and> (\<not> truthy ?tt \<longrightarrow> tax = 0)
         \<and> (truthy ?sa \<longrightarrow> converted rt ?sa shipping)
         \<and> (\<not> truthy ?sa \<longrightarrow> shipping = 0)"
    using lookups(1-3) v1 v2 v3 v4 t1 t2 s1 s2 by blast
  from totals cur converted_string converted_small_integer show ?thesis
    by blast
qed

theorem C7_totals_witness:
  "param sample_event ''value'' = Some (JNum (Finite (399 / 2)))
   \<and> converted (sample_runtime (Inr sample_order) (Inr ''{}'')) (JStr ''199.50'') (399 / 2)
   \<and> param sample_event ''currency'' = Some (JStr ''USD'')
   \<and> param (bare_event ''abc'' ''1001'') ''shipping'' = Some (JNum (Finite 0))
   \<and> param (bare_event ''abc'' ''1001'') ''currency'' = Some (JStr ''INR'')"
  using C7_monetary_totals [OF ga4Event_sample_order, of "Inr sample_order" "Inr ''{}''"]
    C7_monetary_totals [OF ga4Event_client_order]
  by (simp add: sample_event_def sample_order_def bare_event_def param_def event_params_def)

text \<open>
  C7 as stated fails: a \<^verbatim>\<open>total_price\<close> that is present and 0 is passed over for
  \<^verbatim>\<open>current_total_price\<close>, so the value is 25 and not the total price; and an order
  with a \<^verbatim>\<open>null\<close> line item gets no totals at all, since the mapping throws.
\<close>

theorem C7_present_zero_total_counterexample:
  "ga4Event (sample_runtime (Inr sample_order) (Inr ''{}''))
     (JObj [(''id'', JNum (Finite 1001)), (''total_price'', JNum (Finite 0)),
            (''current_total_price'', JStr ''25'')])
   = Inr (JObj [(''client_id'', JStr ''1001''),
           (''non_personalized_ads'', JBool False),
           (''events'',
              JArr [JObj [(''name'', JStr ''purchase''),
                (''params'',
                   JObj [(''transaction_id'', JStr ''1001''),
                         (''value'', JNum (Finite 25)),
                         (''currency'', JStr ''INR''),
                         (''tax'', JNum (Finite 0)),
                         (''shipping'', JNum (Finite 0)),
                         (''coupon'', JUndefined),
                         (''items'', JArr [])])]])])
   \<and> ga4Event (sample_runtime (Inr sample_order) (Inr ''{}''))
       (JObj [(''id'', JNum (Finite 1001)), (''total_price'', JStr ''10''),
              (''line_items'', JArr [JNull])])
     = Inl TypeError"
  by (simp add: eval_defs sample_runtime_def)

subsection \<open>Client identifier\<close>

lemma clientId_Inr:
  assumes "clientId rt order = Inr cid"
  shows "\<exists>src c1. to_string rt src = to_string rt cid
           \<and> getAttr (attributes order) ''client_id'' = Inr c1
           \<and> (truthy c1 \<longrightarrow> src = c1)
           \<and> (\<not> truthy c1 \<longrightarrow>
                (\<exists>c2. getAttr (attributes order) ''_ga_cid'' = Inr c2
                   \<and> (truthy c2 \<longrightarrow> src = c2)
                   \<and> (\<not> truthy c2 \<and> truthy (opt_prop (opt_prop order ''customer'') ''id'')
                        \<longrightarrow> src = opt_prop (opt_prop order ''customer'') ''id'')
                   \<and> (\<not> truthy c2 \<and> \<not> truthy (opt_prop (opt_prop order ''customer'') ''id'')
                        \<longrightarrow> src = opt_prop order ''id'')))"
proof -
  from assms obtain c1 where c1: "getAttr (attributes order) ''client_id'' = Inr c1"
    and r1: "(if truthy c1 then Inr c1
       else then_do (getAttr (attributes order) ''_ga_cid'') (\<lambda>c2.
       if truthy c2 then Inr c2
       else then_do (get_prop order ''customer'') (\<lambda>customer.
       if truthy (opt_prop customer ''id'')
       then then_do (to_string rt (opt_prop customer ''id'')) (\<lambda>s. Inr (JStr s))
       else then_do (to_string rt (opt_prop order ''id'')) (\<lambda>s. Inr (JStr s))))) = Inr cid"
    unfolding clientId_def then_do_eq_Inr by blast
  show ?thesis
  proof (cases "truthy c1")
    case True
    with r1 have "cid = c1" by simp
    with c1 True show ?thesis by blast
  next
    case False
    with r1 obtain c2 where c2: "getAttr (attributes order) ''_ga_cid'' = Inr c2"
      and r2: "(if truthy c2 then Inr c2
       else then_do (get_prop order ''customer'') (\<lambda>customer.
       if truthy (opt_prop customer ''id'')
       then then_do (to_string rt (opt_prop customer ''id'')) (\<lambda>s. Inr (JStr s))
       else then_do (to_string rt (opt_prop order ''id'')) (\<lambda>s. Inr (JStr s)))) = Inr cid"
      by (auto simp: then_do_eq_Inr)
    show ?thesis
    proof (cases "truthy c2")
      case True
      with r2 have "cid = c2" by simp
      with c1 c2 False True show ?thesis by blast
    next
      case c2_falsy: False
      with r2 obtain customer where cu: "get_prop order ''customer'' = Inr customer"
        and r3: "(if truthy (opt_prop customer ''id'')
           then then_do (to_string rt (opt_prop customer ''id'')) (\<lambda>s. Inr (JStr s))
           else then_do (to_string rt (opt_prop order ''id'')) (\<lambda>s. Inr (JStr s))) = Inr cid"
        by (auto simp: then_do_eq_Inr)
      from get_prop_Inr [OF cu] have customer: "customer = opt_prop order ''customer''" .
      let ?src = "if truthy (opt_prop customer ''id'') then opt_prop customer ''id''
                  else opt_prop order ''id''"
      from r3 obtain s where "to_string rt ?src = Inr s" and "cid = JStr s"
        by (auto simp: then_do_eq_Inr split: if_splits)
      then have "to_string rt ?src = to_string rt cid" by simp
      with c1 c2 False c2_falsy customer show ?thesis
        by (intro exI [of _ ?src] exI [of _ c1]) auto
    qed
  qed
qed

text \<open>
  C3, as amended. In every event the handler builds, \<^verbatim>\<open>client_id\<close> is the string
  form of exactly one source value, picked in this order: the value of the
  \<^verbatim>\<open>client_id\<close> attribute when truthy, else the value of the \<^verbatim>\<open>_ga_cid\<close>
  attribute when truthy, else the customer id when truthy, else the order id. It is
  non-empty whenever that source value is a non-empty string or an integer.
\<close>

theorem C3_client_id_resolution:
  assumes "ga4Event rt order = Inr ev"
  shows "\<exists>src s c1.
           to_string rt src = Inr s \<and> opt_prop ev ''client_id'' = JStr s
         \<and> getAttr (attributes order) ''client_id'' = Inr c1
         \<and> (truthy c1 \<longrightarrow> src = c1)
         \<and> (\<not> truthy c1 \<longrightarrow>
              (\<exists>c2. getAttr (attributes order) ''_ga_cid'' = Inr c2
                 \<and> (truthy c2 \<longrightarrow> src = c2)
                 \<and> (\<not> truthy c2 \<and> truthy (opt_prop (opt_prop order ''customer'') ''id'')
                      \<longrightarrow> src = opt_prop (opt_prop order ''customer'') ''id'')
                 \<and> (\<not> truthy c2 \<and> \<not> truthy (opt_prop (opt_prop order ''customer'') ''id'')
                      \<longrightarrow> src = opt_prop order ''id'')))
         \<and> (well_formed_id src \<longrightarrow> s \<noteq> [])"
proof -
  from ga4Event_Inr [OF assms] obtain cid attrib its client_id ps where
    cid: "clientId rt order = Inr cid" and s: "to_string rt cid = Inr client_id"
    and shape: "ev = JObj
             ([(''client_id'', JStr client_id)]
              @ (if truthy (userId order) then [(''user_id'', userId order)] else [])
              @ [(''non_personalized_ads'', JBool False),
                 (''events'', JArr [JObj [(''name'', JStr ''purchase''), (''params'', JObj ps)]])])"
    by blast
  from clientId_Inr [OF cid] obtain src c1 where
    src: "to_string rt src = to_string rt cid"
    and c1: "getAttr (attributes order) ''client_id'' = Inr c1"
    and pr: "truthy c1 \<longrightarrow> src = c1"
       "\<not> truthy c1 \<longrightarrow>
                (\<exists>c2. getAttr (attributes order) ''_ga_cid'' = Inr c2
                   \<and> (truthy c2 \<longrightarrow> src = c2)
                   \<and> (\<not> truthy c2 \<and> truthy (opt_prop (opt_prop order ''customer'') ''id'')
                        \<longrightarrow> src = opt_prop (opt_prop order ''customer'') ''id'')
                   \<and> (\<not> truthy c2 \<and> \<not> truthy (opt_prop (opt_prop order ''customer'') ''id'')
                        \<longrightarrow> src = opt_prop order ''id''))"
    by blast
  from src s have 1: "to_string rt src = Inr client_id" by simp
  have 2: "opt_prop ev ''client_id'' = JStr client_id"
    using shape by (rule event_params_ga4Event(3))
  have 3: "well_formed_id src \<longrightarrow> client_id \<noteq> []"
    using to_string_well_formed_id [OF _ 1] by blast
  from 1 2 3 c1 pr show ?thesis by blast
qed

theorem C3_attribute_wins_witness:
  "opt_prop (bare_event ''abc'' ''1001'') ''client_id'' = JStr ''abc''
   \<and> getAttr (attributes client_order) ''client_id'' = Inr (JStr ''abc'')
   \<and> opt_prop (opt_prop client_order ''customer'') ''id'' = JNum (Finite 555)"
  using C3_client_id_resolution [OF ga4Event_client_order]
  by (simp add: bare_event_def client_order_def attributes_def js_or_def getAttr_def
        name_matches_def toLowerCase_def lower_char_def)

text \<open>
  C3 as stated fails: an order with id 1001 whose customer id is the empty array (truthy,
  and printed as the empty string) gets the empty \<^verbatim>\<open>client_id\<close>.
\<close>

theorem C3_empty_client_id_counterexample:
  "ga4Event (sample_runtime (Inr sample_order) (Inr ''{}''))
     (JObj [(''id'', JNum (Finite 1001)), (''customer'', JObj [(''id'', JArr [])])])
   = Inr (bare_event [] ''1001'')"
  by (simp add: eval_defs sample_runtime_def bare_event_def)

subsection \<open>Failures\<close>

lemma handler_status:
  "status (fst (handler rt env req)) \<in> {405, 401, 200, 500}"
  by (simp add: handler_def handler_try_def split: sum.splits bool.splits)

lemma handler_catch:
  "fst (handler_try rt env req) = Inl e
   \<Longrightarrow> fst (handler rt env req) = \<lparr>status = 500, body = error_body ''Internal error''\<rparr>"
  by (cases "handler_try rt env req") (auto simp: handler_def)

lemma handler_no_catch:
  "fst (handler_try rt env req) = Inr res \<Longrightarrow> fst (handler rt env req) = res"
  by (cases "handler_try rt env req") (auto simp: handler_def)

lemma invocation_settled:
  "body_ends aw \<Longrightarrow> collector_settles aw
   \<Longrightarrow> invocation rt env req aw = (Some (fst (handler rt env req)), snd (handler rt env req))"
  by (simp add: invocation_def handler_def handler_try_def)

lemma invocation_status:
  "fst (invocation rt env req aw) = Some res \<Longrightarrow> status res \<in> {405, 401, 200, 500}"
  using handler_status [of rt env req] by (auto simp: invocation_def split: if_splits)

lemma invocation_body_pending:
  "req_method req = ''POST'' \<Longrightarrow> \<not> body_ends aw \<Longrightarrow> invocation rt env req aw = (None, [])"
  by (simp add: invocation_def)

lemma invocation_collector_pending:
  "req_method req = ''POST'' \<Longrightarrow> body_ends aw \<Longrightarrow> \<not> collector_settles aw
   \<Longrightarrow> snd (handler rt env req) \<noteq> []
   \<Longrightarrow> invocation rt env req aw = (None, snd (handler rt env req))"
  by (simp add: invocation_def)

text \<open>
  C9, as amended. Every invocation whose request body ends and whose call to the
  collector settles produces exactly one response, the handler's, of status 405, 401, 200
  or 500; no invocation produces a response of another status. Whatever the \<^verbatim>\<open>try\<close>
  block throws becomes the response 500 with body \<^verbatim>\<open>{"error": "Internal error"}\<close> and
  nothing else: an exception while verifying, a body that does not parse, an exception
  while mapping the order, and a failed call to the collector (the one case with an
  outbound call on record). A POST whose body never ends, or whose call to the collector
  never settles, gets no response.
\<close>

theorem C9_every_failure_is_a_500:
  "(body_ends aw \<and> collector_settles aw
      \<longrightarrow> invocation rt env req aw = (Some (fst (handler rt env req)), snd (handler rt env req))
        \<and> status (fst (handler rt env req)) \<in> {405, 401, 200, 500})
   \<and> (\<forall>res. fst (invocation rt env req aw) = Some res \<longrightarrow> status res \<in> {405, 401, 200, 500})
   \<and> (\<forall>e. fst (handler_try rt env req) = Inl e
          \<longrightarrow> fst (handler rt env req) = \<lparr>status = 500, body = error_body ''Internal error''\<rparr>)
   \<and> (req_method req = ''POST'' \<and> body_ends aw
      \<longrightarrow> (\<forall>e. verifyShopifyHmac rt env req (raw_body rt req) = Inl e
               \<longrightarrow> invocation rt env req aw
                   = (Some \<lparr>status = 500, body = error_body ''Internal error''\<rparr>, [])))
   \<and> (req_method req = ''POST'' \<and> body_ends aw
        \<and> verifyShopifyHmac rt env req (raw_body rt req) = Inr True
      \<longrightarrow> (\<forall>e. JSON_parse rt (raw_body rt req) = Inl e
               \<longrightarrow> invocation rt env req aw
                   = (Some \<lparr>status = 500, body = error_body ''Internal error''\<rparr>, []))
        \<and> (\<forall>order e. JSON_parse rt (raw_body rt req) = Inr order
                 \<and> ga4Event rt order = Inl e
               \<longrightarrow> invocation rt env req aw
                   = (Some \<lparr>status = 500, body = error_body ''Internal error''\<rparr>, []))
        \<and> (\<forall>order ev e. JSON_parse rt (raw_body rt req) = Inr order
                 \<and> ga4Event rt order = Inr ev
                 \<and> collector_settles aw
                 \<and> fetch_text rt (endpoint env) (JSON_stringify ev) = Inl e
               \<longrightarrow> invocation rt env req aw
                   = (Some \<lparr>status = 500, body = error_body ''Internal error''\<rparr>,
                      [(endpoint env, JSON_stringify ev)]))
        \<and> (\<forall>order ev. JSON_parse rt (raw_body rt req) = Inr order
                 \<and> ga4Event rt order = Inr ev
                 \<and> \<not> collector_settles aw
               \<longrightarrow> invocation rt env req aw = (None, [(endpoint env, JSON_stringify ev)])))
   \<and> (req_method req = ''POST'' \<and> \<not> body_ends aw \<longrightarrow> invocation rt env req aw = (None, []))"
proof -
  have settled: "invocation rt env req aw
        = (Some (fst (handler rt env req)), snd (handler rt env req))
      \<and> status (fst (handler rt env req)) \<in> {405, 401, 200, 500}"
    if "body_ends aw" "collector_settles aw"
    using that handler_status by (simp add: invocation_settled)
  have quiet: "invocation rt env req aw = (Some (fst (handler rt env req)), [])"
    if "req_method req = ''POST''" "body_ends aw" "snd (handler rt env req) = []"
    using that by (simp add: invocation_def)
  have verify: "invocation rt env req aw
      = (Some \<lparr>status = 500, body = error_body ''Internal error''\<rparr>, [])"
    if "req_method req = ''POST''" "body_ends aw"
      "verifyShopifyHmac rt env req (raw_body rt req) = Inl e" for e
    using quiet [OF that(1,2)] handler_verify_throws [OF that(1,3)] by simp
  have parse: "invocation rt env req aw
      = (Some \<lparr>status = 500, body = error_body ''Internal error''\<rparr>, [])"
    if "req_method req = ''POST''" "body_ends aw"
      "verifyShopifyHmac rt env req (raw_body rt req) = Inr True"
      "JSON_parse rt (raw_body rt req) = Inl e" for e
    using quiet [OF that(1,2)] handler_mapping_throws [OF that(1,3), of e] that(4) by simp
  have mapping: "invocation rt env req aw
      = (Some \<lparr>status = 500, body = error_body ''Internal error''\<rparr>, [])"
    if "req_method req = ''POST''" "body_ends aw"
      "verifyShopifyHmac rt env req (raw_body rt req) = Inr True"
      "JSON_parse rt (raw_body rt req) = Inr order" "ga4Event rt order = Inl e"
    for order e
    using quiet [OF that(1,2)] handler_mapping_throws [OF that(1,3), of e] that(4,5) by simp
  have forward: "invocation rt env req aw
      = (Some \<lparr>status = 500, body = error_body ''Internal error''\<rparr>,
         [(endpoint env, JSON_stringify ev)])"
    if "req_method req = ''POST''" "body_ends aw"
      "verifyShopifyHmac rt env req (raw_body rt req) = Inr True"
      "JSON_parse rt (raw_body rt req) = Inr order" "ga4Event rt order = Inr ev"
      "collector_settles aw" "fetch_text rt (endpoint env) (JSON_stringify ev) = Inl e"
    for order ev e
    using invocation_settled [OF that(2,6), of rt env req]
      handler_forwards(1) [OF that(1,3,4,5)] handler_forwards(3) [OF that(1,3,4,5,7)]
    by simp
  have pending: "invocation rt env req aw = (None, [(endpoint env, JSON_stringify ev)])"
    if "req_method req = ''POST''" "body_ends aw"
      "verifyShopifyHmac rt env req (raw_body rt req) = Inr True"
      "JSON_parse rt (raw_body rt req) = Inr order" "ga4Event rt order = Inr ev"
      "\<not> collector_settles aw"
    for order ev
    using invocation_collector_pending [OF that(1,2,6), of rt env]
      handler_forwards(1) [OF that(1,3,4,5)]
    by simp
  have c1: "body_ends aw \<and> collector_settles aw
      \<longrightarrow> invocation rt env req aw = (Some (fst (handler rt env req)), snd (handler rt env req))
        \<and> status (fst (handler rt env req)) \<in> {405, 401, 200, 500}"
    using settled by blast
  have c2: "\<forall>res. fst (invocation rt env req aw) = Some res
      \<longrightarrow> status res \<in> {405, 401, 200, 500}"
    using invocation_status by blast
  have c3: "\<forall>e. fst (handler_try rt env req) = Inl e
      \<longrightarrow> fst (handler rt env req) = \<lparr>status = 500, body = error_body ''Internal error''\<rparr>"
    using handler_catch by blast
  have c4: "req_method req = ''POST'' \<and> body_ends aw
      \<longrightarrow> (\<forall>e. verifyShopifyHmac rt env req (raw_body rt req) = Inl e
               \<longrightarrow> invocation rt env req aw
                   = (Some \<lparr>status = 500, body = error_body ''Internal error''\<rparr>, []))"
    using verify by blast
  have c5: "req_method req = ''POST'' \<and> body_ends aw
        \<and> verifyShopifyHmac rt env req (raw_body rt req) = Inr True
      \<longrightarrow> (\<forall>e. JSON_parse rt (raw_body rt req) = Inl e
               \<longrightarrow> invocation rt env req aw
                   = (Some \<lparr>status = 500, body = error_body ''Internal error''\<rparr>, []))
        \<and> (\<forall>order e. JSON_parse rt (raw_body rt req) = Inr order
                 \<and> ga4Event rt order = Inl e
               \<longrightarrow> invocation rt env req aw
                   = (Some \<lparr>status = 500, body = error_body ''Internal error''\<rparr>, []))
        \<and> (\<forall>order ev e. JSON_parse rt (raw_body rt req) = Inr order
                 \<and> ga4Event rt order = Inr ev
                 \<and> collector_settles aw
                 \<and> fetch_text rt (endpoint env) (JSON_stringify ev) = Inl e
               \<longrightarrow> invocation rt env req aw
                   = (Some \<lparr>status = 500, body = error_body ''Internal error''\<rparr>,
                      [(endpoint env, JSON_stringify ev)]))
        \<and> (\<forall>order ev. JSON_parse rt (raw_body rt req) = Inr order
                 \<and> ga4Event rt order = Inr ev
                 \<and> \<not> collector_settles aw
               \<longrightarrow> invocation rt env req aw = (None, [(endpoint env, JSON_stringify ev)]))"
    using parse mapping forward pending by blast
  have c6: "req_method req = ''POST'' \<and> \<not> body_ends aw
      \<longrightarrow> invocation rt env req aw = (None, [])"
    using invocation_body_pending by blast
  show ?thesis
    by (intro conjI c1 c2 c3 c4 c5 c6)
qed

theorem C9_parse_and_fetch_failure_witness:
  "invocation (sample_runtime (Inl SyntaxError) (Inr ''{}'')) (sample_env None)
     (sample_request None) \<lparr>body_ends = True, collector_settles = True\<rparr>
     = (Some \<lparr>status = 500, body = error_body ''Internal error''\<rparr>, [])
   \<and> invocation (sample_runtime (Inr sample_order) (Inl FetchError)) (sample_env None)
       (sample_request None) \<lparr>body_ends = True, collector_settles = True\<rparr>
     = (Some \<lparr>status = 500, body = error_body ''Internal error''\<rparr>,
        [(endpoint (sample_env None), JSON_stringify sample_event)])"
proof -
  let ?aw = "\<lparr>body_ends = True, collector_settles = True\<rparr>"
  let ?env = "sample_env None"
  let ?req = "sample_request None"
  let ?rt1 = "sample_runtime (Inl SyntaxError) (Inr ''{}'')"
  let ?rt2 = "sample_runtime (Inr sample_order) (Inl FetchError)"
  have post: "req_method ?req = ''POST''"
    by (rule sample_request_POST)
  have settle: "body_ends ?aw" "collector_settles ?aw"
    by simp_all
  have v1: "verifyShopifyHmac ?rt1 ?env ?req (raw_body ?rt1 ?req) = Inr True"
    and v2: "verifyShopifyHmac ?rt2 ?env ?req (raw_body ?rt2 ?req) = Inr True"
    by (rule sample_verify_unset)+
  have j1: "JSON_parse ?rt1 (raw_body ?rt1 ?req) = Inl SyntaxError"
    and j2: "JSON_parse ?rt2 (raw_body ?rt2 ?req) = Inr sample_order"
    by (rule sample_parse)+
  have m2: "ga4Event ?rt2 sample_order = Inr sample_event"
    by (rule ga4Event_sample_order)
  have f2: "fetch_text ?rt2 (endpoint ?env) (JSON_stringify sample_event) = Inl FetchError"
    by (rule sample_fetch)
  from C9_every_failure_is_a_500 [of ?aw ?rt1 ?env ?req] post settle v1 j1
  have 1: "invocation ?rt1 ?env ?req ?aw
      = (Some \<lparr>status = 500, body = error_body ''Internal error''\<rparr>, [])"
    by blast
  from C9_every_failure_is_a_500 [of ?aw ?rt2 ?env ?req] post settle v2 j2 m2 f2
  have 2: "invocation ?rt2 ?env ?req ?aw
      = (Some \<lparr>status = 500, body = error_body ''Internal error''\<rparr>,
         [(endpoint ?env, JSON_stringify sample_event)])"
    by blast
  from 1 2 show ?thesis by (rule conjI)
qed

text \<open>
  C9 as stated fails: a POST whose stream never emits \<^verbatim>\<open>end\<close> is never answered, and
  neither is one whose call to the collector never settles.
\<close>

theorem C9_pending_body_counterexample:
  "invocation (sample_runtime (Inr sample_order) (Inr ''{}'')) (sample_env None)
     (sample_request None) \<lparr>body_ends = False, collector_settles = True\<rparr>
     = (None, [])
   \<and> invocation (sample_runtime (Inr sample_order) (Inr ''{}'')) (sample_env None)
       (sample_request None) \<lparr>body_ends = True, collector_settles = False\<rparr>
     = (None, [(endpoint (sample_env None), JSON_stringify sample_event)])"
proof -
  have "snd (handler (sample_runtime (Inr sample_order) (Inr ''{}'')) (sample_env None)
               (sample_request None))
      = [(endpoint (sample_env None), JSON_stringify sample_event)]"
    by (rule handler_forwards(1) [OF sample_request_POST sample_verify_unset sample_parse
          ga4Event_sample_order])
  then show ?thesis
    by (simp add: invocation_def sample_request_POST)
qed

subsection \<open>An order without an id\<close>









end
